theory Spec2Isabelle
  imports Main
begin

section \<open>Values exchanged with the outside world\<close>

text \<open>
  JSON values as the handlers build them with \<^verbatim>\<open>res.status(..).json(..)\<close> and as
  \<^verbatim>\<open>jwt.verify\<close> hands token payloads back. An object is an association list, in
  insertion order.
\<close>

datatype json =
    JNull
  | JBool bool
  | JNum int
  | JStr string
  | JArr "json list"
  | JObj "(string \<times> json) list"

text \<open>Does the key occur anywhere in the value, at any depth?\<close>

fun hasKey :: "string \<Rightarrow> json \<Rightarrow> bool"
  and hasKeyList :: "string \<Rightarrow> json list \<Rightarrow> bool"
  and hasKeyFields :: "string \<Rightarrow> (string \<times> json) list \<Rightarrow> bool" where
  "hasKey k JNull = False"
| "hasKey k (JBool b) = False"
| "hasKey k (JNum n) = False"
| "hasKey k (JStr s) = False"
| "hasKey k (JArr vs) = hasKeyList k vs"
| "hasKey k (JObj kvs) = hasKeyFields k kvs"
| "hasKeyList k [] = False"
| "hasKeyList k (v # vs) = (hasKey k v \<or> hasKeyList k vs)"
| "hasKeyFields k [] = False"
| "hasKeyFields k (kv # kvs) = (fst kv = k \<or> hasKey k (snd kv) \<or> hasKeyFields k kvs)"

text \<open>A thrown JavaScript error: its \<^verbatim>\<open>name\<close> and its \<^verbatim>\<open>message\<close>.\<close>

datatype exn = Exn (ename: string) (emessage: string)

type_synonym claims = "(string \<times> json) list"

datatype cookieOp =
    SetCookie string string "(string \<times> json) list"
  | ClearCookie string "(string \<times> json) list"

record response =
  statusCode :: nat
  jsonBody :: json
  cookieOps :: "cookieOp list"

definition send :: "nat \<Rightarrow> json \<Rightarrow> response" where
  "send c b = \<lparr>statusCode = c, jsonBody = b, cookieOps = []\<rparr>"

definition metaMsg :: "string \<Rightarrow> json" where
  "metaMsg m = JObj [(''meta'', JObj [(''message'', JStr m)])]"

definition metaErr :: "string \<Rightarrow> json \<Rightarrow> json" where
  "metaErr m e = JObj [(''meta'', JObj [(''message'', JStr m), (''errors'', e)])]"

text \<open>
  \<^verbatim>\<open>error.message || error\<close>: the message when it is a non-empty string, else the
  error object itself, which \<^verbatim>\<open>JSON.stringify\<close> renders as an object without
  fields.
\<close>

definition messageOrError :: "exn \<Rightarrow> json" where
  "messageOrError e = (if emessage e \<noteq> [] then JStr (emessage e) else JObj [])"

section \<open>The account record (src/models/user.model.js)\<close>

datatype role = RoleUser | RoleAdmin

datatype status = Active | Inactive

text \<open>
  One document of the \<^verbatim>\<open>User\<close> collection. \<open>password\<close> is \<open>Some hash\<close> on every
  stored document (the path is required); it is \<open>None\<close> only on a document read with
  \<^verbatim>\<open>.select("-password")\<close>. The timestamps are left out: no handler reads them.
\<close>

record user =
  user_id :: string
  fullName :: "string option"
  email :: string
  password :: "string option"
  phone :: "string option"
  address :: "string option"
  avatar :: string
  role :: role
  status :: status

type_synonym store = "user list"

section \<open>Configuration and collaborators\<close>

text \<open>
  Everything a handler reads that is not in this repository: the variables of
  \<^verbatim>\<open>process.env\<close> (a string, or undefined), and the library calls whose results the
  handlers branch on. A library call that can throw returns \<open>Inl\<close> of the error.
  \<^item> \<open>jwt_sign payload secret expiresIn\<close> and \<open>jwt_verify token secret\<close>: jsonwebtoken,
    at the time of the request;
  \<^item> \<open>bcrypt_hash\<close> (with the salt generation that precedes it in \<^verbatim>\<open>resetPassword\<close>)
    and \<open>bcrypt_compare plaintext hash\<close>: bcryptjs;
  \<^item> \<open>joi_email\<close>: Joi's \<^verbatim>\<open>string().email()\<close> rule;
  \<^item> \<open>castObjectId\<close>: Mongoose's cast of a query value to an ObjectId (a CastError when
    it fails); \<open>dbFault\<close>: the error every store call rejects with while the store is
    unreachable; \<open>newObjectId\<close>: the \<^verbatim>\<open>_id\<close> given to the next created document;
  \<^item> \<open>transporter_sendMail to subject text html\<close>: nodemailer; \<open>Some e\<close> when the
    dispatch rejects.
\<close>

record env =
  ACCESS_TOKEN_SECRET :: "string option"
  ACCESS_TOKEN_EXPIRE :: "string option"
  REFRESH_TOKEN_SECRET :: "string option"
  REFRESH_TOKEN_EXPIRE :: "string option"
  RESET_TOKEN_SECRET :: "string option"
  RESET_TOKEN_EXPIRE :: "string option"
  CLIENT_URL :: "string option"
  NODE_ENV :: "string option"
  jwt_sign :: "claims \<Rightarrow> string option \<Rightarrow> string option \<Rightarrow> exn + string"
  jwt_verify :: "string \<Rightarrow> string option \<Rightarrow> exn + claims"
  bcrypt_hash :: "string option \<Rightarrow> exn + string"
  bcrypt_compare :: "string \<Rightarrow> string option \<Rightarrow> exn + bool"
  joi_email :: "string \<Rightarrow> bool"
  castObjectId :: "json \<Rightarrow> exn + string"
  dbFault :: "exn option"
  newObjectId :: string
  transporter_sendMail :: "string \<Rightarrow> string \<Rightarrow> string \<Rightarrow> string \<Rightarrow> exn option"

section \<open>Strings as JavaScript treats them\<close>

text \<open>\<^verbatim>\<open>!x\<close> on a string that may be undefined: undefined and the empty string are falsy.\<close>

fun truthy :: "string option \<Rightarrow> bool" where
  "truthy None = False"
| "truthy (Some s) = (s \<noteq> [])"

definition startsWith :: "string \<Rightarrow> string \<Rightarrow> bool" where
  "startsWith s p = (take (length p) s = p)"

text \<open>\<^verbatim>\<open>s.split(c)\<close> for a one-character separator: never empty, one more piece than
  there are separators.\<close>

fun split :: "string \<Rightarrow> char \<Rightarrow> string list" where
  "split [] c = [[]]"
| "split (x # xs) c =
     (if x = c then [] # split xs c
      else (case split xs c of [] \<Rightarrow> [[x]] | w # ws \<Rightarrow> (x # w) # ws))"

text \<open>\<^verbatim>\<open>xs[i]\<close>: undefined past the end.\<close>

definition at :: "'a list \<Rightarrow> nat \<Rightarrow> 'a option" where
  "at xs i = (if i < length xs then Some (xs ! i) else None)"

section \<open>The store (Mongoose model \<^verbatim>\<open>User\<close>)\<close>

text \<open>
  \<^verbatim>\<open>doc.toJSON()\<close> before the schema's transform: every path that is set, with
  \<^verbatim>\<open>_id\<close> and the version key.
\<close>

definition optField :: "string \<Rightarrow> string option \<Rightarrow> (string \<times> json) list" where
  "optField k v = (case v of None \<Rightarrow> [] | Some s \<Rightarrow> [(k, JStr s)])"

definition roleStr :: "role \<Rightarrow> string" where
  "roleStr r = (case r of RoleUser \<Rightarrow> ''user'' | RoleAdmin \<Rightarrow> ''admin'')"

definition statusStr :: "status \<Rightarrow> string" where
  "statusStr s = (case s of Active \<Rightarrow> ''active'' | Inactive \<Rightarrow> ''inactive'')"

definition toObject :: "user \<Rightarrow> (string \<times> json) list" where
  "toObject u =
     [(''_id'', JStr (user_id u))]
     @ optField ''fullName'' (fullName u)
     @ [(''email'', JStr (email u))]
     @ optField ''password'' (password u)
     @ optField ''phone'' (phone u)
     @ optField ''address'' (address u)
     @ [(''avatar'', JStr (avatar u)),
        (''role'', JStr (roleStr (role u))),
        (''status'', JStr (statusStr (status u))),
        (''__v'', JNum 0)]"

text \<open>\<^verbatim>\<open>delete ret.k\<close> and \<^verbatim>\<open>ret.k = v\<close> on an object.\<close>

definition deleteKey :: "string \<Rightarrow> (string \<times> json) list \<Rightarrow> (string \<times> json) list" where
  "deleteKey k kvs = filter (\<lambda>kv. fst kv \<noteq> k) kvs"

definition setKey :: "string \<Rightarrow> json \<Rightarrow> (string \<times> json) list \<Rightarrow> (string \<times> json) list" where
  "setKey k v kvs =
     (if k \<in> fst ` set kvs then map (\<lambda>kv. if fst kv = k then (k, v) else kv) kvs
      else kvs @ [(k, v)])"

text \<open>The \<^verbatim>\<open>toJSON\<close> transform of the schema (user.model.js, lines 41-48).\<close>

definition transform :: "(string \<times> json) list \<Rightarrow> (string \<times> json) list" where
  "transform ret =
     (let ret1 = (case map_of ret ''_id'' of None \<Rightarrow> ret | Some i \<Rightarrow> setKey ''id'' i ret);
          ret2 = deleteKey ''_id'' ret1;
          ret3 = deleteKey ''__v'' ret2
      in deleteKey ''password'' ret3)"

definition toJSON :: "user \<Rightarrow> json" where
  "toJSON u = JObj (transform (toObject u))"

text \<open>\<^verbatim>\<open>.select("-password")\<close>: the document without that path.\<close>

definition selectNoPassword :: "user \<Rightarrow> user" where
  "selectNoPassword u = u\<lparr>password := None\<rparr>"

text \<open>
  \<^verbatim>\<open>User.findById(x)\<close>. Mongoose turns \<^verbatim>\<open>findById(undefined)\<close> into a query for
  \<^verbatim>\<open>_id: null\<close>, which matches nothing; any other value is cast to an ObjectId first,
  and the cast throws before the store is reached.
\<close>

definition findById :: "env \<Rightarrow> store \<Rightarrow> json option \<Rightarrow> exn + user option" where
  "findById env db x =
     (case x of
        None \<Rightarrow> (case dbFault env of Some e \<Rightarrow> Inl e | None \<Rightarrow> Inr None)
      | Some v \<Rightarrow>
          (case castObjectId env v of
             Inl e \<Rightarrow> Inl e
           | Inr oid \<Rightarrow>
               (case dbFault env of
                  Some e \<Rightarrow> Inl e
                | None \<Rightarrow> Inr (find (\<lambda>u. user_id u = oid) db))))"

section \<open>Authentication middleware (src/middleware/protect.js)\<close>

text \<open>
  The middleware either sends a response, or sets \<^verbatim>\<open>req.user\<close> and calls
  \<^verbatim>\<open>next()\<close>.
\<close>

datatype authResult = Responded response | Next "user"

text \<open>Lines 8-12: the token taken from the Authorization header.\<close>

definition bearerToken :: "string option \<Rightarrow> string option" where
  "bearerToken authHeader =
     (case authHeader of
        None \<Rightarrow> None
      | Some h \<Rightarrow> if h \<noteq> [] \<and> startsWith h ''Bearer'' then at (split h CHR '' '') 1 else None)"

text \<open>Lines 45-62: the catch block, and the response of its last branch.\<close>

definition internalServerError :: "exn \<Rightarrow> response" where
  "internalServerError error =
     send 500 (JObj [(''meta'', JObj [(''message'', JStr ''Internal server error''),
                                      (''error'', JStr (emessage error))])])"

definition authenticateCatch :: "exn \<Rightarrow> response" where
  "authenticateCatch error =
     (if ename error = ''TokenExpiredError''
      then send 401 (metaMsg ''Token expired, please log in again'')
      else if ename error = ''JsonWebTokenError''
      then send 401 (metaMsg ''Invalid token, not authorized'')
      else internalServerError error)"

definition authenticate :: "env \<Rightarrow> store \<Rightarrow> string option \<Rightarrow> authResult" where
  "authenticate env db authHeader =
     (case bearerToken authHeader of
        None \<Rightarrow> Responded (send 401 (metaMsg ''Unauthorized - No token provided''))
      | Some token \<Rightarrow>
          if token = [] then Responded (send 401 (metaMsg ''Unauthorized - No token provided''))
          else if \<not> truthy (ACCESS_TOKEN_SECRET env)
          then Responded (send 500 (metaMsg ''Server configuration error''))
          else
            (case jwt_verify env token (ACCESS_TOKEN_SECRET env) of
               Inl error \<Rightarrow> Responded (authenticateCatch error)
             | Inr decoded \<Rightarrow>
                 (case map_of decoded ''id'' of
                    Some (JStr i) \<Rightarrow>
                      if i = [] then Responded (send 400 (metaMsg ''Invalid user ID in token''))
                      else
                        (case findById env db (Some (JStr i)) of
                           Inl error \<Rightarrow> Responded (authenticateCatch error)
                         | Inr None \<Rightarrow>
                             Responded (send 404 (metaMsg ''User not found, authentication failed''))
                         | Inr (Some u) \<Rightarrow> Next (selectNoPassword u))
                  | _ \<Rightarrow> Responded (send 400 (metaMsg ''Invalid user ID in token'')))))"

text \<open>Lines 68-78: the admin gate layered on \<open>authenticate\<close>.\<close>

definition protect :: "env \<Rightarrow> store \<Rightarrow> string option \<Rightarrow> authResult" where
  "protect env db authHeader =
     (case authenticate env db authHeader of
        Responded r \<Rightarrow> Responded r
      | Next u \<Rightarrow>
          if role u \<noteq> RoleAdmin
          then Responded (send 403 (metaMsg ''Access forbidden: Admins only''))
          else Next u)"

section \<open>Schema setters and validators (src/models/user.model.js)\<close>

text \<open>
  \<^verbatim>\<open>toLowerCase\<close> and \<^verbatim>\<open>trim\<close> on the ASCII range, which is what \<open>char\<close> holds;
  \<open>isSpace\<close> is also the regular expressions' \<^verbatim>\<open>\s\<close> there.
\<close>

definition lowerChar :: "char \<Rightarrow> char" where
  "lowerChar c =
     (let n = (of_char c :: nat) in if 65 \<le> n \<and> n \<le> 90 then char_of (n + 32) else c)"

definition toLowerCase :: "string \<Rightarrow> string" where
  "toLowerCase s = map lowerChar s"

definition isSpace :: "char \<Rightarrow> bool" where
  "isSpace c = ((of_char c :: nat) \<in> {9, 10, 11, 12, 13, 32})"

definition trim :: "string \<Rightarrow> string" where
  "trim s = rev (dropWhile isSpace (rev (dropWhile isSpace s)))"

text \<open>The setters of the \<^verbatim>\<open>email\<close> path: \<^verbatim>\<open>trim: true, lowercase: true\<close>.\<close>

definition castEmail :: "string \<Rightarrow> string" where
  "castEmail s = toLowerCase (trim s)"

text \<open>\<^verbatim>\<open>/^[^\s@]+@[^\s@]+\.[^\s@]+$/\<close>: one \<^verbatim>\<open>@\<close>, no white space, a non-empty local
  part, and a dot strictly inside the domain.\<close>

definition matchEmail :: "string \<Rightarrow> bool" where
  "matchEmail s =
     (case split s CHR ''@'' of
        [l, d] \<Rightarrow> l \<noteq> [] \<and> \<not> list_ex isSpace l \<and> \<not> list_ex isSpace d
                  \<and> CHR ''.'' \<in> set (butlast (tl d))
      | _ \<Rightarrow> False)"

definition isDigit :: "char \<Rightarrow> bool" where
  "isDigit c = (let n = (of_char c :: nat) in 48 \<le> n \<and> n \<le> 57)"

text \<open>\<^verbatim>\<open>/^\+?[1-9]\d{1,14}$/\<close>.\<close>

definition matchPhone :: "string \<Rightarrow> bool" where
  "matchPhone s =
     (case (case s of [] \<Rightarrow> [] | c # r \<Rightarrow> if c = CHR ''+'' then r else s) of
        [] \<Rightarrow> False
      | d # ds \<Rightarrow> isDigit d \<and> d \<noteq> CHR ''0'' \<and> 1 \<le> length ds \<and> length ds \<le> 14
                  \<and> list_all isDigit ds)"

definition defaultAvatar :: string where
  "defaultAvatar = ''https://static1.s123-cdn-static-a.com/uploads/3107639/800_5e9de73574b25.png''"

definition validFullName :: "string option \<Rightarrow> bool" where
  "validFullName f = (case f of None \<Rightarrow> True | Some s \<Rightarrow> 3 \<le> length s \<and> length s \<le> 100)"

text \<open>Mongoose's \<^verbatim>\<open>match\<close> validator lets the empty string pass.\<close>

definition validPhone :: "string option \<Rightarrow> bool" where
  "validPhone p = (case p of None \<Rightarrow> True | Some s \<Rightarrow> s = [] \<or> matchPhone s)"

text \<open>The messages of the errors the store raises are abbreviated.\<close>

definition validationError :: exn where
  "validationError = Exn ''ValidationError'' ''User validation failed''"

definition duplicateKeyError :: exn where
  "duplicateKeyError = Exn ''MongoServerError'' ''E11000 duplicate key error''"

section \<open>Store operations\<close>

text \<open>
  \<^verbatim>\<open>User.findOne({ email })\<close>. Mongoose casts the filter through the schema, and the
  cast of a string path runs the path's setters, so the address is looked up trimmed
  and lowercased.
\<close>

definition findOne :: "env \<Rightarrow> store \<Rightarrow> string \<Rightarrow> exn + user option" where
  "findOne env db e =
     (case dbFault env of
        Some err \<Rightarrow> Inl err
      | None \<Rightarrow> Inr (find (\<lambda>u. email u = castEmail e) db))"

text \<open>
  \<^verbatim>\<open>User.create({ fullName, email, password })\<close>: setters, defaults, the schema's
  validators, then the insert, which the unique index on \<^verbatim>\<open>email\<close> can refuse.
\<close>

definition create :: "env \<Rightarrow> store \<Rightarrow> string option \<Rightarrow> string \<Rightarrow> string \<Rightarrow> exn + (store \<times> user)" where
  "create env db fn e pw =
     (let doc = \<lparr>user_id = newObjectId env, fullName = map_option trim fn,
                 email = castEmail e, password = Some pw, phone = None, address = None,
                 avatar = defaultAvatar, role = RoleUser, status = Active\<rparr>
      in if \<not> (validFullName (fullName doc) \<and> email doc \<noteq> [] \<and> matchEmail (email doc)
                \<and> 6 \<le> length pw)
         then Inl validationError
         else (case dbFault env of
                 Some err \<Rightarrow> Inl err
               | None \<Rightarrow>
                   if list_ex (\<lambda>u. email u = email doc) db then Inl duplicateKeyError
                   else Inr (db @ [doc], doc)))"

text \<open>\<^verbatim>\<open>User.find()\<close>.\<close>

definition findAll :: "env \<Rightarrow> store \<Rightarrow> exn + user list" where
  "findAll env db = (case dbFault env of Some err \<Rightarrow> Inl err | None \<Rightarrow> Inr db)"

text \<open>
  The update document of \<^verbatim>\<open>findByIdAndUpdate\<close>: a field that is undefined in the
  JavaScript object is \<open>None\<close>, and Mongoose leaves such a path alone.
\<close>

record userUpdate =
  set_fullName :: "string option"
  set_phone :: "string option"
  set_address :: "string option"
  set_avatar :: "string option"
  set_status :: "status option"
  set_password :: "string option"

definition noUpdate :: userUpdate where
  "noUpdate = \<lparr>set_fullName = None, set_phone = None, set_address = None,
               set_avatar = None, set_status = None, set_password = None\<rparr>"

definition orElse :: "'a option \<Rightarrow> 'a \<Rightarrow> 'a" where
  "orElse x d = (case x of None \<Rightarrow> d | Some v \<Rightarrow> v)"

definition applyUpdate :: "userUpdate \<Rightarrow> user \<Rightarrow> user" where
  "applyUpdate up u =
     u\<lparr>fullName := (case set_fullName up of None \<Rightarrow> fullName u | Some s \<Rightarrow> Some (trim s)),
       phone := (case set_phone up of None \<Rightarrow> phone u | Some s \<Rightarrow> Some s),
       address := (case set_address up of None \<Rightarrow> address u | Some s \<Rightarrow> Some (trim s)),
       avatar := orElse (set_avatar up) (avatar u),
       status := orElse (set_status up) (status u),
       password := (case set_password up of None \<Rightarrow> password u | Some s \<Rightarrow> Some s)\<rparr>"

text \<open>
  \<^verbatim>\<open>User.findByIdAndUpdate(id, update, { new: true, runValidators })\<close>: the id is cast,
  the validators of the updated paths run when asked for, and the updated document
  comes back, or null when no document has that id. \<open>updateById\<close> is the call on
  an id that is an ObjectId already (\<^verbatim>\<open>user._id\<close>), which needs no cast.
\<close>

definition updateById ::
  "env \<Rightarrow> store \<Rightarrow> string \<Rightarrow> userUpdate \<Rightarrow> bool \<Rightarrow> exn + (store \<times> user option)" where
  "updateById env db oid up runValidators =
     (if runValidators
         \<and> \<not> (validFullName (map_option trim (set_fullName up)) \<and> validPhone (set_phone up)
              \<and> (case set_password up of None \<Rightarrow> True | Some p \<Rightarrow> 6 \<le> length p))
      then Inl validationError
      else (case dbFault env of
              Some err \<Rightarrow> Inl err
            | None \<Rightarrow>
                (case find (\<lambda>u. user_id u = oid) db of
                   None \<Rightarrow> Inr (db, None)
                 | Some u \<Rightarrow>
                     Inr (map (\<lambda>v. if user_id v = oid then applyUpdate up v else v) db,
                          Some (applyUpdate up u)))))"

definition findByIdAndUpdate ::
  "env \<Rightarrow> store \<Rightarrow> string \<Rightarrow> userUpdate \<Rightarrow> bool \<Rightarrow> exn + (store \<times> user option)" where
  "findByIdAndUpdate env db i up runValidators =
     (case castObjectId env (JStr i) of
        Inl err \<Rightarrow> Inl err
      | Inr oid \<Rightarrow> updateById env db oid up runValidators)"

text \<open>\<^verbatim>\<open>User.findByIdAndDelete(id)\<close>.\<close>

definition findByIdAndDelete :: "env \<Rightarrow> store \<Rightarrow> string \<Rightarrow> exn + (store \<times> user option)" where
  "findByIdAndDelete env db i =
     (case castObjectId env (JStr i) of
        Inl err \<Rightarrow> Inl err
      | Inr oid \<Rightarrow>
          (case dbFault env of
             Some err \<Rightarrow> Inl err
           | None \<Rightarrow>
               (case find (\<lambda>u. user_id u = oid) db of
                  None \<Rightarrow> Inr (db, None)
                | Some u \<Rightarrow> Inr (filter (\<lambda>v. user_id v \<noteq> oid) db, Some u))))"

section \<open>Request validation (src/schemas/auth.js)\<close>

text \<open>
  The fields a handler destructures from \<^verbatim>\<open>req.body\<close> are a string or undefined;
  \<open>body_other\<close> names the remaining keys of the body. Joi coerces (case, then trim)
  before it applies the rules, and the handlers keep only the error: the values they
  go on with are the ones of the request. With \<^verbatim>\<open>abortEarly: false\<close> the messages
  of all keys are collected, in the order of the schema.
\<close>

record registerBody =
  reg_fullName :: "string option"
  reg_email :: "string option"
  reg_password :: "string option"

record loginBody =
  login_email :: "string option"
  login_password :: "string option"
  body_other :: "string list"

definition registerValidationSchema :: "env \<Rightarrow> registerBody \<Rightarrow> string list" where
  "registerValidationSchema env b =
     (case reg_fullName b of
        None \<Rightarrow> []
      | Some f \<Rightarrow>
          if trim f = [] then [''Fullname cannot be empty'']
          else if length (trim f) < 3 then [''Fullname must be at least 3 characters long'']
          else if 100 < length (trim f) then [''Fullname cannot exceed 100 characters'']
          else [])
     @ (case reg_email b of
          None \<Rightarrow> [''Email is required'']
        | Some e \<Rightarrow>
            if trim (toLowerCase e) = [] then [''Email cannot be empty'']
            else if \<not> joi_email env (trim (toLowerCase e))
            then [''Please provide a valid email address'']
            else [])
     @ (case reg_password b of
          None \<Rightarrow> [''Password is required'']
        | Some p \<Rightarrow>
            if p = [] then [''Password cannot be empty'']
            else if length p < 6 then [''Password must be at least 6 characters long'']
            else [])"

definition loginValidationSchema :: "env \<Rightarrow> loginBody \<Rightarrow> string list" where
  "loginValidationSchema env b =
     (case login_email b of
        None \<Rightarrow> [''Email is required'']
      | Some e \<Rightarrow>
          if e = [] then [''Email cannot be empty'']
          else if \<not> joi_email env e then [''Please provide a valid email address'']
          else [])
     @ (case login_password b of
          None \<Rightarrow> [''Password is required'']
        | Some p \<Rightarrow> if p = [] then [''Password cannot be empty''] else [])
     @ map (\<lambda>k. [CHR 0x22] @ k @ [CHR 0x22] @ '' is not allowed'') (body_other b)"

definition validationErrors :: "string list \<Rightarrow> response" where
  "validationErrors msgs = send 400 (metaErr ''Validation errors'' (JArr (map JStr msgs)))"

section \<open>Token helpers (src/utils/generateToken.js)\<close>

definition generateAccessToken :: "env \<Rightarrow> user \<Rightarrow> exn + string" where
  "generateAccessToken env u =
     jwt_sign env [(''id'', JStr (user_id u)), (''email'', JStr (email u))]
       (ACCESS_TOKEN_SECRET env) (ACCESS_TOKEN_EXPIRE env)"

definition generateRefreshToken :: "env \<Rightarrow> user \<Rightarrow> exn + string" where
  "generateRefreshToken env u =
     jwt_sign env [(''id'', JStr (user_id u))]
       (REFRESH_TOKEN_SECRET env) (REFRESH_TOKEN_EXPIRE env)"

section \<open>Mail helper (utils/sendMail.js, src/unnamed/part_009)\<close>

text \<open>
  The helper's own try/catch turns whatever the transport throws into the answer
  \<^verbatim>\<open>false\<close>; \<open>Inl\<close> would be an error that escapes to the caller. (The other state
  of the file, src/unnamed/part_008, catches in the same place and returns nothing.)
\<close>

definition sendEmail :: "env \<Rightarrow> string \<Rightarrow> string \<Rightarrow> string \<Rightarrow> string \<Rightarrow> exn + bool" where
  "sendEmail env to subject text html =
     (case transporter_sendMail env to subject text html of
        None \<Rightarrow> Inr True
      | Some error \<Rightarrow> Inr False)"

section \<open>Handlers (controllers/auth.controller.js, src/unnamed/part_001)\<close>

text \<open>
  A handler takes the configuration, the store and what it reads of the request, and
  returns the store it leaves and the response it sends. The file
  src/controllers/auth.controller.js is an earlier state of the same controller: its
  \<^verbatim>\<open>register\<close>, \<^verbatim>\<open>getProfile\<close>, \<^verbatim>\<open>refreshToken\<close> and \<^verbatim>\<open>logout\<close> are the same
  text, and its \<^verbatim>\<open>login\<close> differs only in leaving \<^verbatim>\<open>role\<close> out of the user it
  returns on success.
\<close>

definition publicUser :: "user \<Rightarrow> (string \<times> json) list" where
  "publicUser u =
     [(''id'', JStr (user_id u))] @ optField ''fullName'' (fullName u)
     @ [(''email'', JStr (email u))]"

definition withData :: "string \<Rightarrow> (string \<times> json) list \<Rightarrow> json" where
  "withData m d = JObj [(''meta'', JObj [(''message'', JStr m)]), (''data'', JObj d)]"

definition register :: "env \<Rightarrow> store \<Rightarrow> registerBody \<Rightarrow> store \<times> response" where
  "register env db b =
     (let caught = (\<lambda>error. (db, send 500 (metaErr ''Error registering user'' (messageOrError error))));
          errors = registerValidationSchema env b
      in case (errors, reg_email b, reg_password b) of
           ([], Some e, Some pw) \<Rightarrow>
             (case findOne env db e of
                Inl error \<Rightarrow> caught error
              | Inr (Some existingUser) \<Rightarrow>
                  (db, send 400 (metaErr ''Email is already in use'' (JBool True)))
              | Inr None \<Rightarrow>
                  (case bcrypt_hash env (Some pw) of
                     Inl error \<Rightarrow> caught error
                   | Inr hashedPassword \<Rightarrow>
                       (case create env db (reg_fullName b) e hashedPassword of
                          Inl error \<Rightarrow> caught error
                        | Inr (db', u) \<Rightarrow>
                            (db', send 201 (withData ''User registered successfully''
                                              [(''user'', JObj (publicUser u))])))))
         | _ \<Rightarrow> (db, validationErrors errors))"

definition refreshCookieOptions :: "env \<Rightarrow> (string \<times> json) list" where
  "refreshCookieOptions env =
     [(''httpOnly'', JBool True),
      (''secure'', JBool (NODE_ENV env = Some ''production'')),
      (''sameSite'', JStr ''Strict'')]"

definition login :: "env \<Rightarrow> store \<Rightarrow> loginBody \<Rightarrow> store \<times> response" where
  "login env db b =
     (let caught = (\<lambda>error. (db, send 500 (metaErr ''Error logging in'' (messageOrError error))));
          errors = loginValidationSchema env b
      in case (errors, login_email b, login_password b) of
           ([], Some e, Some pw) \<Rightarrow>
             (case findOne env db e of
                Inl error \<Rightarrow> caught error
              | Inr None \<Rightarrow>
                  (db, send 400 (metaErr ''Invalid email or password'' (JBool True)))
              | Inr (Some u) \<Rightarrow>
                  (case bcrypt_compare env pw (password u) of
                     Inl error \<Rightarrow> caught error
                   | Inr isMatch \<Rightarrow>
                       if \<not> isMatch
                       then (db, send 400 (metaErr ''Invalid email or password'' (JBool True)))
                       else
                         (case generateAccessToken env u of
                            Inl error \<Rightarrow> caught error
                          | Inr accessToken \<Rightarrow>
                              (case generateRefreshToken env u of
                                 Inl error \<Rightarrow> caught error
                               | Inr refreshToken \<Rightarrow>
                                   (db, \<lparr>statusCode = 200,
                                         jsonBody = withData ''Login successful''
                                           [(''accessToken'', JStr accessToken),
                                            (''user'', JObj (publicUser u
                                               @ [(''role'', JStr (roleStr (role u)))]))],
                                         cookieOps =
                                           [SetCookie ''refreshToken'' refreshToken
                                              (refreshCookieOptions env
                                               @ [(''maxAge'', JNum (7 * 24 * 60 * 60 * 1000))])]\<rparr>)))))
         | _ \<Rightarrow> (db, validationErrors errors))"

definition notFound :: response where
  "notFound = send 404 (metaErr ''User not found'' (JBool True))"

definition getProfile :: "env \<Rightarrow> store \<Rightarrow> string option \<Rightarrow> store \<times> response" where
  "getProfile env db authHeader =
     (case (case authHeader of None \<Rightarrow> None | Some h \<Rightarrow> at (split h CHR '' '') 1) of
        None \<Rightarrow> (db, send 401 (metaMsg ''Unauthorized''))
      | Some token \<Rightarrow>
          if token = [] then (db, send 401 (metaMsg ''Unauthorized''))
          else
            (let caught = (\<lambda>error. (db, send 500 (metaErr ''Error fetching profile''
                                                     (messageOrError error))))
             in case jwt_verify env token (ACCESS_TOKEN_SECRET env) of
                  Inl error \<Rightarrow> caught error
                | Inr decoded \<Rightarrow>
                    (case findById env db (map_of decoded ''id'') of
                       Inl error \<Rightarrow> caught error
                     | Inr None \<Rightarrow> (db, notFound)
                     | Inr (Some u) \<Rightarrow>
                         (db, send 200 (withData ''User profile retrieved successfully''
                                          [(''user'', toJSON (selectNoPassword u))])))))"

definition refreshToken :: "env \<Rightarrow> store \<Rightarrow> string option \<Rightarrow> store \<times> response" where
  "refreshToken env db cookie =
     (case cookie of
        None \<Rightarrow> (db, send 401 (metaErr ''Unauthorized'' (JBool True)))
      | Some token \<Rightarrow>
          if token = [] then (db, send 401 (metaErr ''Unauthorized'' (JBool True)))
          else
            (case jwt_verify env token (REFRESH_TOKEN_SECRET env) of
               Inl err \<Rightarrow>
                 (db, \<lparr>statusCode = 403,
                       jsonBody = metaErr ''Forbidden - Invalid refresh token'' (JBool True),
                       cookieOps = [ClearCookie ''refreshToken'' []]\<rparr>)
             | Inr decoded \<Rightarrow>
                 (let caught = (\<lambda>error. (db, send 500 (metaErr ''Error refreshing token''
                                                          (messageOrError error))))
                  in case findById env db (map_of decoded ''id'') of
                       Inl error \<Rightarrow> caught error
                     | Inr None \<Rightarrow>
                         (db, \<lparr>statusCode = 403,
                               jsonBody = metaErr ''Forbidden - User not found'' (JBool True),
                               cookieOps = [ClearCookie ''refreshToken'' []]\<rparr>)
                     | Inr (Some u) \<Rightarrow>
                         (case jwt_sign env [(''id'', JStr (user_id u))]
                                 (ACCESS_TOKEN_SECRET env) (ACCESS_TOKEN_EXPIRE env) of
                            Inl error \<Rightarrow> caught error
                          | Inr accessToken \<Rightarrow>
                              (db, send 200 (withData ''Access token refreshed''
                                               [(''accessToken'', JStr accessToken)]))))))"

definition logout :: "env \<Rightarrow> store \<Rightarrow> store \<times> response" where
  "logout env db =
     (db, \<lparr>statusCode = 200, jsonBody = metaMsg ''Logout successful'',
           cookieOps = [ClearCookie ''refreshToken'' (refreshCookieOptions env)]\<rparr>)"

definition list :: "env \<Rightarrow> store \<Rightarrow> store \<times> response" where
  "list env db =
     (case findAll env db of
        Inl error \<Rightarrow> (db, send 500 (metaErr ''Error fetching users'' (messageOrError error)))
      | Inr users \<Rightarrow>
          (db, send 200 (withData ''User list retrieved successfully''
                           [(''users'', JArr (map (\<lambda>u. toJSON (selectNoPassword u)) users))])))"

definition updateStatus :: "env \<Rightarrow> store \<Rightarrow> string \<Rightarrow> string option \<Rightarrow> store \<times> response" where
  "updateStatus env db i st =
     (case (if st = Some ''active'' then Some Active
            else if st = Some ''inactive'' then Some Inactive else None) of
        None \<Rightarrow> (db, send 400 (metaErr ''Invalid status'' (JBool True)))
      | Some s \<Rightarrow>
          (case findByIdAndUpdate env db i (noUpdate\<lparr>set_status := Some s\<rparr>) True of
             Inl error \<Rightarrow>
               (db, send 500 (metaErr ''Error updating user status'' (JStr (emessage error))))
           | Inr (db', None) \<Rightarrow> (db', notFound)
           | Inr (db', Some u) \<Rightarrow>
               (db', send 200 (withData ''User status updated successfully''
                                 [(''user'', toJSON (selectNoPassword u))]))))"

record updateBody =
  upd_fullName :: "string option"
  upd_phone :: "string option"
  upd_address :: "string option"
  upd_avatar :: "string option"

definition update :: "env \<Rightarrow> store \<Rightarrow> string \<Rightarrow> updateBody \<Rightarrow> store \<times> response" where
  "update env db i b =
     (if truthy (upd_phone b) \<and> \<not> matchPhone (orElse (upd_phone b) [])
      then (db, send 400 (metaErr ''Invalid phone number format'' (JBool True)))
      else
        (case findByIdAndUpdate env db i
                (noUpdate\<lparr>set_fullName := upd_fullName b, set_phone := upd_phone b,
                          set_address := upd_address b, set_avatar := upd_avatar b\<rparr>) True of
           Inl error \<Rightarrow>
             (db, send 500 (metaErr ''Error updating user'' (messageOrError error)))
         | Inr (db', None) \<Rightarrow> (db', notFound)
         | Inr (db', Some u) \<Rightarrow>
             (db', send 200 (withData ''User profile updated successfully''
                               [(''user'', toJSON u)]))))"

definition remove :: "env \<Rightarrow> store \<Rightarrow> string \<Rightarrow> store \<times> response" where
  "remove env db i =
     (case findByIdAndDelete env db i of
        Inl error \<Rightarrow> (db, send 500 (metaErr ''Error deleting user'' (JStr (emessage error))))
      | Inr (db', None) \<Rightarrow> (db', notFound)
      | Inr (db', Some u) \<Rightarrow> (db', send 200 (metaMsg ''User deleted successfully'')))"

text \<open>A template literal prints an undefined variable as the word \<^verbatim>\<open>undefined\<close>.\<close>

definition resetLink :: "env \<Rightarrow> string \<Rightarrow> string" where
  "resetLink env token = orElse (CLIENT_URL env) ''undefined'' @ ''/reset-password?token='' @ token"

definition resetMailHtml :: "string \<Rightarrow> string" where
  "resetMailHtml link =
     ''<p>Click <a href='' @ [CHR 0x22] @ link @ [CHR 0x22]
     @ ''>here</a> to reset your password. This link will expire in 15 minutes.</p>''"

text \<open>
  The body's \<^verbatim>\<open>email\<close> is taken to be a string: the handler does not validate it.
  Its catch block puts the error object itself under \<^verbatim>\<open>errors\<close>, which
  \<^verbatim>\<open>JSON.stringify\<close> renders as an object without fields.
\<close>

definition forgotPassword :: "env \<Rightarrow> store \<Rightarrow> string \<Rightarrow> store \<times> response" where
  "forgotPassword env db e =
     (let caught = (\<lambda>error. (db, send 500 (metaErr ''Error sending password reset email'' (JObj []))))
      in case findOne env db e of
           Inl error \<Rightarrow> caught error
         | Inr None \<Rightarrow> (db, notFound)
         | Inr (Some u) \<Rightarrow>
             (case jwt_sign env [(''id'', JStr (user_id u))]
                     (RESET_TOKEN_SECRET env) (RESET_TOKEN_EXPIRE env) of
                Inl error \<Rightarrow> caught error
              | Inr token \<Rightarrow>
                  (case sendEmail env e ''Password Reset Request'' []
                          (resetMailHtml (resetLink env token)) of
                     Inl error \<Rightarrow> caught error
                   | Inr sent \<Rightarrow>
                       (db, send 200 (metaMsg ''Password reset link sent successfully'')))))"

definition resetPassword :: "env \<Rightarrow> store \<Rightarrow> string option \<Rightarrow> string option \<Rightarrow> store \<times> response" where
  "resetPassword env db token newPassword =
     (let caught = (\<lambda>error. (db, send 400 (metaErr ''Invalid or expired token'' (JBool True))))
      in case (case token of
                 None \<Rightarrow> Inl (Exn ''JsonWebTokenError'' ''jwt must be provided'')
               | Some t \<Rightarrow> jwt_verify env t (RESET_TOKEN_SECRET env)) of
           Inl error \<Rightarrow> caught error
         | Inr decoded \<Rightarrow>
             (case findById env db (map_of decoded ''id'') of
                Inl error \<Rightarrow> caught error
              | Inr None \<Rightarrow> (db, notFound)
              | Inr (Some u) \<Rightarrow>
                  (case bcrypt_hash env newPassword of
                     Inl error \<Rightarrow> caught error
                   | Inr hashedPassword \<Rightarrow>
                       (case updateById env db (user_id u)
                               (noUpdate\<lparr>set_password := Some hashedPassword\<rparr>) False of
                          Inl error \<Rightarrow> caught error
                        | Inr (db', r) \<Rightarrow>
                            (db', send 200 (metaMsg ''Password reset successfully''))))))"

section \<open>Routes (routes/auth.routes.js, src/unnamed/part_003)\<close>

text \<open>A route runs its middleware and, when that calls \<^verbatim>\<open>next()\<close>, its handler.\<close>

definition getProfileRoute :: "env \<Rightarrow> store \<Rightarrow> string option \<Rightarrow> store \<times> response" where
  "getProfileRoute env db authHeader =
     (case authenticate env db authHeader of
        Responded r \<Rightarrow> (db, r)
      | Next reqUser \<Rightarrow> getProfile env db authHeader)"

definition listRoute :: "env \<Rightarrow> store \<Rightarrow> string option \<Rightarrow> store \<times> response" where
  "listRoute env db authHeader =
     (case protect env db authHeader of
        Responded r \<Rightarrow> (db, r)
      | Next reqUser \<Rightarrow> list env db)"

definition updateStatusRoute ::
  "env \<Rightarrow> store \<Rightarrow> string option \<Rightarrow> string \<Rightarrow> string option \<Rightarrow> store \<times> response" where
  "updateStatusRoute env db authHeader i st =
     (case authenticate env db authHeader of
        Responded r \<Rightarrow> (db, r)
      | Next reqUser \<Rightarrow> updateStatus env db i st)"

definition updateRoute ::
  "env \<Rightarrow> store \<Rightarrow> string option \<Rightarrow> string \<Rightarrow> updateBody \<Rightarrow> store \<times> response" where
  "updateRoute env db authHeader i b =
     (case authenticate env db authHeader of
        Responded r \<Rightarrow> (db, r)
      | Next reqUser \<Rightarrow> update env db i b)"

definition removeRoute :: "env \<Rightarrow> store \<Rightarrow> string option \<Rightarrow> string \<Rightarrow> store \<times> response" where
  "removeRoute env db authHeader i =
     (case protect env db authHeader of
        Responded r \<Rightarrow> (db, r)
      | Next reqUser \<Rightarrow> remove env db i)"

section \<open>A concrete configuration and store\<close>

text \<open>
  A small world to run the handlers in: two accounts, and collaborators that answer
  for a handful of inputs. Under any secret, the token \<^verbatim>\<open>a.b.c\<close> verifies as a
  token of the first account, \<^verbatim>\<open>r.o.t\<close> as one of the second, \<^verbatim>\<open>g.o.n\<close> as one
  of an account that is not stored, and \<^verbatim>\<open>n.o.id\<close> as one without an id;
  \<^verbatim>\<open>old\<close> has expired, \<^verbatim>\<open>early\<close> is not yet active; anything else has no valid
  signature.
\<close>

definition jane :: user where
  "jane = \<lparr>user_id = ''64b7c86b5f1b2c3f4a1b2c4d'', fullName = Some ''Jane Doe'',
           email = ''jane@x.com'', password = Some ''$2a$10$hash-of-secret1'',
           phone = None, address = None, avatar = defaultAvatar,
           role = RoleUser, status = Active\<rparr>"

definition root :: user where
  "root = \<lparr>user_id = ''64b7c86b5f1b2c3f4a1b2c4e'', fullName = Some ''Root'',
           email = ''root@x.com'', password = Some ''$2a$10$hash-of-hunter2'',
           phone = None, address = None, avatar = defaultAvatar,
           role = RoleAdmin, status = Active\<rparr>"

definition demoStore :: store where
  "demoStore = [jane, root]"

definition demoSign :: "claims \<Rightarrow> string option \<Rightarrow> string option \<Rightarrow> exn + string" where
  "demoSign payload secret expiresIn =
     (case (secret, expiresIn) of
        (Some k, Some t) \<Rightarrow> Inr (''jwt:'' @ concat (map (\<lambda>kv. fst kv @ '';'') payload))
      | _ \<Rightarrow> Inl (Exn ''Error'' ''secretOrPrivateKey must have a value''))"

definition demoVerify :: "string \<Rightarrow> string option \<Rightarrow> exn + claims" where
  "demoVerify token secret =
     (if secret = None then Inl (Exn ''JsonWebTokenError'' ''secret or public key must be provided'')
      else if token = ''a.b.c''
      then Inr [(''id'', JStr ''64b7c86b5f1b2c3f4a1b2c4d''), (''iat'', JNum 1), (''exp'', JNum 901)]
      else if token = ''r.o.t''
      then Inr [(''id'', JStr ''64b7c86b5f1b2c3f4a1b2c4e''), (''iat'', JNum 1), (''exp'', JNum 901)]
      else if token = ''g.o.n''
      then Inr [(''id'', JStr ''64b7c86b5f1b2c3f4a1b2c40''), (''iat'', JNum 1), (''exp'', JNum 901)]
      else if token = ''n.o.id'' then Inr [(''iat'', JNum 1), (''exp'', JNum 901)]
      else if token = ''old'' then Inl (Exn ''TokenExpiredError'' ''jwt expired'')
      else if token = ''early'' then Inl (Exn ''NotBeforeError'' ''jwt not active'')
      else Inl (Exn ''JsonWebTokenError'' ''invalid signature''))"

definition demoHash :: "string option \<Rightarrow> exn + string" where
  "demoHash pw =
     (case pw of
        None \<Rightarrow> Inl (Exn ''Error'' ''Illegal arguments: undefined, string'')
      | Some p \<Rightarrow> Inr (''$2a$10$hash-of-'' @ p))"

definition demoCompare :: "string \<Rightarrow> string option \<Rightarrow> exn + bool" where
  "demoCompare pw h =
     (case h of
        None \<Rightarrow> Inl (Exn ''Error'' ''Illegal arguments: string, undefined'')
      | Some x \<Rightarrow> Inr (x = ''$2a$10$hash-of-'' @ pw))"

definition demoCast :: "json \<Rightarrow> exn + string" where
  "demoCast v =
     (case v of
        JStr s \<Rightarrow> if length s = 24 then Inr s else Inl (Exn ''CastError'' ''Cast to ObjectId failed'')
      | _ \<Rightarrow> Inl (Exn ''CastError'' ''Cast to ObjectId failed''))"

definition demoEnv :: env where
  "demoEnv =
     \<lparr>ACCESS_TOKEN_SECRET = Some ''access-secret'', ACCESS_TOKEN_EXPIRE = Some ''15m'',
      REFRESH_TOKEN_SECRET = Some ''refresh-secret'', REFRESH_TOKEN_EXPIRE = Some ''7d'',
      RESET_TOKEN_SECRET = Some ''reset-secret'', RESET_TOKEN_EXPIRE = Some ''1h'',
      CLIENT_URL = Some ''https://www.example.com'', NODE_ENV = Some ''production'',
      jwt_sign = demoSign, jwt_verify = demoVerify,
      bcrypt_hash = demoHash, bcrypt_compare = demoCompare,
      joi_email = matchEmail, castObjectId = demoCast, dbFault = None,
      newObjectId = ''64b7c86b5f1b2c3f4a1b2c4f'',
      transporter_sendMail = (\<lambda>to subject text html. None)\<rparr>"

section \<open>The outcomes the specification lists for the middleware\<close>

text \<open>
  Not code: the six terminal outcomes that section 4.5 of the specification numbers
  (three rejections with 401, one with 400, one with 404, or proceeding), as a
  predicate on what the middleware returns, to compare \<open>authenticate\<close> with.
\<close>

definition claimedOutcome :: "authResult \<Rightarrow> bool" where
  "claimedOutcome a =
     (case a of
        Next u \<Rightarrow> True
      | Responded r \<Rightarrow> statusCode r = 401 \<or> statusCode r = 400 \<or> statusCode r = 404)"

section \<open>Properties\<close>

subsection \<open>Helper facts\<close>

lemma split_no_separator: "c \<notin> set s \<Longrightarrow> split s c = [s]"
  by (induction s) auto

lemma login_validated:
  "loginValidationSchema env b = [] \<Longrightarrow> \<exists>e p. login_email b = Some e \<and> login_password b = Some p"
  by (auto simp: loginValidationSchema_def split: option.splits if_splits)

subsection \<open>Login does not reveal whether an email is registered\<close>

text \<open>
  C1. Take two login requests that pass validation, each against a reachable store: the
  first names an email that no stored account has; the second names the email of a
  stored account, and \<^verbatim>\<open>bcrypt.compare\<close> of its password with the stored hash
  answers false. Then the two responses are equal as a whole, and they are status 400
  with the message "Invalid email or password", the flag \<^verbatim>\<open>errors: true\<close> and no
  cookie. The two requests may arrive at different times and see different stores.
\<close>

theorem login_no_enumeration:
  assumes "loginValidationSchema env1 b1 = []" and "login_email b1 = Some e1"
    and "dbFault env1 = None" and "\<not> list_ex (\<lambda>u. email u = castEmail e1) db1"
    and "loginValidationSchema env2 b2 = []" and "login_email b2 = Some e2"
    and "login_password b2 = Some p2"
    and "dbFault env2 = None" and "find (\<lambda>u. email u = castEmail e2) db2 = Some u"
    and "bcrypt_compare env2 p2 (password u) = Inr False"
  shows "snd (login env1 db1 b1) = snd (login env2 db2 b2)
         \<and> snd (login env1 db1 b1) = send 400 (metaErr ''Invalid email or password'' (JBool True))"
proof -
  obtain p1 where p1: "login_password b1 = Some p1"
    using login_validated [OF assms(1)] by auto
  have "find (\<lambda>u. email u = castEmail e1) db1 = None"
    using assms(4) by (simp add: find_None_iff list_ex_iff)
  then have r1: "login env1 db1 b1 = (db1, send 400 (metaErr ''Invalid email or password'' (JBool True)))"
    using assms(1,2,3) p1 by (simp add: login_def findOne_def)
  have r2: "login env2 db2 b2 = (db2, send 400 (metaErr ''Invalid email or password'' (JBool True)))"
    using assms(5-10) by (simp add: login_def findOne_def)
  show ?thesis by (simp add: r1 r2)
qed

text \<open>The spec's example: an unknown address, and Jane's address with a wrong password.\<close>

theorem login_no_enumeration_witness:
  "snd (login demoEnv demoStore
          \<lparr>login_email = Some ''nobody@x.com'', login_password = Some ''whatever'', body_other = []\<rparr>)
   = snd (login demoEnv demoStore
          \<lparr>login_email = Some ''jane@x.com'', login_password = Some ''wrong'', body_other = []\<rparr>)
   \<and> snd (login demoEnv demoStore
          \<lparr>login_email = Some ''nobody@x.com'', login_password = Some ''whatever'', body_other = []\<rparr>)
     = send 400 (metaErr ''Invalid email or password'' (JBool True))"
proof -
  let ?b1 = "\<lparr>login_email = Some ''nobody@x.com'', login_password = Some ''whatever'', body_other = []\<rparr>"
  let ?b2 = "\<lparr>login_email = Some ''jane@x.com'', login_password = Some ''wrong'', body_other = []\<rparr>"
  have a1: "loginValidationSchema demoEnv ?b1 = []" by code_simp
  have a2: "login_email ?b1 = Some ''nobody@x.com''" by simp
  have a3: "dbFault demoEnv = None" by (simp add: demoEnv_def)
  have a4: "\<not> list_ex (\<lambda>u. email u = castEmail ''nobody@x.com'') demoStore" by code_simp
  have a5: "loginValidationSchema demoEnv ?b2 = []" by code_simp
  have a6: "login_email ?b2 = Some ''jane@x.com''" by simp
  have a7: "login_password ?b2 = Some ''wrong''" by simp
  have a9: "find (\<lambda>u. email u = castEmail ''jane@x.com'') demoStore = Some jane" by code_simp
  have a10: "bcrypt_compare demoEnv ''wrong'' (password jane) = Inr False" by code_simp
  show ?thesis by (rule login_no_enumeration [OF a1 a2 a3 a4 a5 a6 a7 a3 a9 a10])
qed

subsection \<open>A Bearer header without a space carries no token\<close>

text \<open>
  C10. When the Authorization header starts with \<^verbatim>\<open>Bearer\<close> and contains no space,
  \<^verbatim>\<open>split(" ")\<close> yields the header alone, its element 1 is undefined, and the
  middleware answers 401 "Unauthorized - No token provided". The statement holds for
  every configuration, so whatever \<^verbatim>\<open>jwt.verify\<close> would answer plays no part: the
  branches for an invalid and for an expired token are not reached.
\<close>

theorem bearer_without_space_is_missing_token:
  "startsWith h ''Bearer'' \<Longrightarrow> CHR '' '' \<notin> set h \<Longrightarrow>
   authenticate env db (Some h) = Responded (send 401 (metaMsg ''Unauthorized - No token provided''))"
  by (simp add: authenticate_def bearerToken_def split_no_separator at_def)

theorem bearer_without_space_is_missing_token_witness:
  "startsWith ''BearereyJhbGciOi'' ''Bearer'' \<and> CHR '' '' \<notin> set ''BearereyJhbGciOi''
   \<and> authenticate demoEnv demoStore (Some ''BearereyJhbGciOi'')
       = Responded (send 401 (metaMsg ''Unauthorized - No token provided''))"
proof -
  have h1: "startsWith ''BearereyJhbGciOi'' ''Bearer''" by (simp add: startsWith_def)
  have h2: "CHR '' '' \<notin> set ''BearereyJhbGciOi''" by simp
  show ?thesis using h1 h2 bearer_without_space_is_missing_token [OF h1 h2] by simp
qed

subsection \<open>The terminal outcomes of the authentication middleware\<close>

lemma authenticate_no_token:
  "\<not> truthy (bearerToken h) \<Longrightarrow>
   authenticate env db h = Responded (send 401 (metaMsg ''Unauthorized - No token provided''))"
  by (cases "bearerToken h") (simp_all add: authenticate_def)

lemma authenticate_no_secret:
  "truthy (bearerToken h) \<Longrightarrow> \<not> truthy (ACCESS_TOKEN_SECRET env) \<Longrightarrow>
   authenticate env db h = Responded (send 500 (metaMsg ''Server configuration error''))"
  by (cases "bearerToken h") (simp_all add: authenticate_def)

lemma authenticate_verify_throws:
  "bearerToken h = Some t \<Longrightarrow> t \<noteq> [] \<Longrightarrow> truthy (ACCESS_TOKEN_SECRET env) \<Longrightarrow>
   jwt_verify env t (ACCESS_TOKEN_SECRET env) = Inl e \<Longrightarrow>
   authenticate env db h = Responded (authenticateCatch e)"
  by (simp add: authenticate_def)

lemma authenticate_bad_id:
  "bearerToken h = Some t \<Longrightarrow> t \<noteq> [] \<Longrightarrow> truthy (ACCESS_TOKEN_SECRET env) \<Longrightarrow>
   jwt_verify env t (ACCESS_TOKEN_SECRET env) = Inr d \<Longrightarrow>
   \<forall>s. map_of d ''id'' = Some (JStr s) \<longrightarrow> s = [] \<Longrightarrow>
   authenticate env db h = Responded (send 400 (metaMsg ''Invalid user ID in token''))"
  by (simp add: authenticate_def split: option.splits json.splits)

lemma authenticate_lookup:
  "bearerToken h = Some t \<Longrightarrow> t \<noteq> [] \<Longrightarrow> truthy (ACCESS_TOKEN_SECRET env) \<Longrightarrow>
   jwt_verify env t (ACCESS_TOKEN_SECRET env) = Inr d \<Longrightarrow>
   map_of d ''id'' = Some (JStr i) \<Longrightarrow> i \<noteq> [] \<Longrightarrow>
   authenticate env db h =
     (case findById env db (Some (JStr i)) of
        Inl error \<Rightarrow> Responded (authenticateCatch error)
      | Inr None \<Rightarrow> Responded (send 404 (metaMsg ''User not found, authentication failed''))
      | Inr (Some u) \<Rightarrow> Next (selectNoPassword u))"
  by (simp add: authenticate_def)

lemma authenticateCatch_cases:
  "ename e = ''JsonWebTokenError'' \<Longrightarrow>
     authenticateCatch e = send 401 (metaMsg ''Invalid token, not authorized'')"
  "ename e = ''TokenExpiredError'' \<Longrightarrow>
     authenticateCatch e = send 401 (metaMsg ''Token expired, please log in again'')"
  "ename e \<noteq> ''JsonWebTokenError'' \<Longrightarrow> ename e \<noteq> ''TokenExpiredError'' \<Longrightarrow>
     authenticateCatch e = internalServerError e"
  by (simp_all add: authenticateCatch_def internalServerError_def)

lemma authenticateCatch_listed:
  "authenticateCatch e = send 401 (metaMsg ''Invalid token, not authorized'')
   \<or> authenticateCatch e = send 401 (metaMsg ''Token expired, please log in again'')
   \<or> authenticateCatch e = internalServerError e"
  by (simp add: authenticateCatch_def)

lemma authenticate_listed:
  "authenticate env db h = Responded (send 401 (metaMsg ''Unauthorized - No token provided''))
   \<or> authenticate env db h = Responded (send 500 (metaMsg ''Server configuration error''))
   \<or> authenticate env db h = Responded (send 401 (metaMsg ''Invalid token, not authorized''))
   \<or> authenticate env db h = Responded (send 401 (metaMsg ''Token expired, please log in again''))
   \<or> authenticate env db h = Responded (send 400 (metaMsg ''Invalid user ID in token''))
   \<or> authenticate env db h = Responded (send 404 (metaMsg ''User not found, authentication failed''))
   \<or> (\<exists>u. authenticate env db h = Next u)
   \<or> (\<exists>x. authenticate env db h = Responded (internalServerError x))"
proof (cases "truthy (bearerToken h)")
  case False
  then show ?thesis by (simp add: authenticate_no_token)
next
  case True
  then obtain t where t: "bearerToken h = Some t" "t \<noteq> []"
    by (cases "bearerToken h") auto
  show ?thesis
  proof (cases "truthy (ACCESS_TOKEN_SECRET env)")
    case False
    with True show ?thesis by (simp add: authenticate_no_secret)
  next
    case secret: True
    show ?thesis
    proof (cases "jwt_verify env t (ACCESS_TOKEN_SECRET env)")
      case (Inl e)
      with t secret authenticateCatch_listed [of e] show ?thesis
        by (auto simp: authenticate_verify_throws)
    next
      case (Inr d)
      show ?thesis
      proof (cases "\<forall>s. map_of d ''id'' = Some (JStr s) \<longrightarrow> s = []")
        case True
        with t secret Inr show ?thesis
          by (simp add: authenticate_bad_id)
      next
        case False
        then obtain i where i: "map_of d ''id'' = Some (JStr i)" "i \<noteq> []" by auto
        show ?thesis
        proof (cases "findById env db (Some (JStr i))")
          case (Inl e)
          with t secret Inr i authenticateCatch_listed [of e] show ?thesis
            by (auto simp: authenticate_lookup)
        next
          case look: (Inr r)
          with t secret Inr i show ?thesis
            by (cases r) (simp_all add: authenticate_lookup)
        qed
      qed
    qed
  qed
qed

text \<open>
  C2, as stated, fails: with a token in the header and no \<^verbatim>\<open>ACCESS_TOKEN_SECRET\<close> in
  the environment, the guard of lines 20-25 answers 500 "Server configuration error",
  which is none of the six outcomes: its status is neither 401, 400 nor 404.
\<close>

theorem authenticate_six_outcomes_counterexample:
  "authenticate (demoEnv\<lparr>ACCESS_TOKEN_SECRET := None\<rparr>) demoStore (Some ''Bearer a.b.c'')
     = Responded (send 500 (metaMsg ''Server configuration error''))
   \<and> \<not> claimedOutcome (authenticate (demoEnv\<lparr>ACCESS_TOKEN_SECRET := None\<rparr>) demoStore
                          (Some ''Bearer a.b.c''))"
  by code_simp

text \<open>
  C2, amended. Every request ends in exactly one of eight outcomes, decided in this
  order: no token taken from the header gives 401 (no token provided); a token, but
  an access-token secret that is unset or empty, gives 500 (server configuration
  error); a JsonWebTokenError gives 401 (invalid token); a TokenExpiredError gives 401
  (token expired); verified claims whose \<^verbatim>\<open>id\<close> is absent, empty or not a string give
  400; a lookup that finds no account gives 404; a lookup that finds the account
  attaches it without its password and calls the next handler; and any other error
  thrown by the verification or by the lookup gives 500 (internal server error, with
  the error's message). The last conjunct says that nothing else is ever returned.
\<close>

theorem authenticate_outcomes:
  "(\<not> truthy (bearerToken h) \<longrightarrow>
      authenticate env db h = Responded (send 401 (metaMsg ''Unauthorized - No token provided'')))
   \<and> (truthy (bearerToken h) \<and> \<not> truthy (ACCESS_TOKEN_SECRET env) \<longrightarrow>
      authenticate env db h = Responded (send 500 (metaMsg ''Server configuration error'')))
   \<and> (truthy (bearerToken h) \<and> truthy (ACCESS_TOKEN_SECRET env) \<and> bearerToken h = Some t \<longrightarrow>
        (jwt_verify env t (ACCESS_TOKEN_SECRET env) = Inl e \<and> ename e = ''JsonWebTokenError'' \<longrightarrow>
           authenticate env db h = Responded (send 401 (metaMsg ''Invalid token, not authorized'')))
      \<and> (jwt_verify env t (ACCESS_TOKEN_SECRET env) = Inl e \<and> ename e = ''TokenExpiredError'' \<longrightarrow>
           authenticate env db h = Responded (send 401 (metaMsg ''Token expired, please log in again'')))
      \<and> (jwt_verify env t (ACCESS_TOKEN_SECRET env) = Inr d
           \<and> (\<forall>s. map_of d ''id'' = Some (JStr s) \<longrightarrow> s = []) \<longrightarrow>
           authenticate env db h = Responded (send 400 (metaMsg ''Invalid user ID in token'')))
      \<and> (jwt_verify env t (ACCESS_TOKEN_SECRET env) = Inr d \<and> map_of d ''id'' = Some (JStr i) \<and> i \<noteq> []
           \<and> findById env db (Some (JStr i)) = Inr None \<longrightarrow>
           authenticate env db h = Responded (send 404 (metaMsg ''User not found, authentication failed'')))
      \<and> (jwt_verify env t (ACCESS_TOKEN_SECRET env) = Inr d \<and> map_of d ''id'' = Some (JStr i) \<and> i \<noteq> []
           \<and> findById env db (Some (JStr i)) = Inr (Some u) \<longrightarrow>
           authenticate env db h = Next (u\<lparr>password := None\<rparr>))
      \<and> ((jwt_verify env t (ACCESS_TOKEN_SECRET env) = Inl e
            \<or> jwt_verify env t (ACCESS_TOKEN_SECRET env) = Inr d \<and> map_of d ''id'' = Some (JStr i) \<and> i \<noteq> []
               \<and> findById env db (Some (JStr i)) = Inl e)
           \<and> ename e \<noteq> ''JsonWebTokenError'' \<and> ename e \<noteq> ''TokenExpiredError'' \<longrightarrow>
           authenticate env db h = Responded (internalServerError e)))
   \<and> (authenticate env db h = Responded (send 401 (metaMsg ''Unauthorized - No token provided''))
       \<or> authenticate env db h = Responded (send 500 (metaMsg ''Server configuration error''))
       \<or> authenticate env db h = Responded (send 401 (metaMsg ''Invalid token, not authorized''))
       \<or> authenticate env db h = Responded (send 401 (metaMsg ''Token expired, please log in again''))
       \<or> authenticate env db h = Responded (send 400 (metaMsg ''Invalid user ID in token''))
       \<or> authenticate env db h = Responded (send 404 (metaMsg ''User not found, authentication failed''))
       \<or> (\<exists>u. authenticate env db h = Next u)
       \<or> (\<exists>x. authenticate env db h = Responded (internalServerError x)))"
proof (intro conjI impI)
  show "authenticate env db h = Responded (send 401 (metaMsg ''Unauthorized - No token provided''))
       \<or> authenticate env db h = Responded (send 500 (metaMsg ''Server configuration error''))
       \<or> authenticate env db h = Responded (send 401 (metaMsg ''Invalid token, not authorized''))
       \<or> authenticate env db h = Responded (send 401 (metaMsg ''Token expired, please log in again''))
       \<or> authenticate env db h = Responded (send 400 (metaMsg ''Invalid user ID in token''))
       \<or> authenticate env db h = Responded (send 404 (metaMsg ''User not found, authentication failed''))
       \<or> (\<exists>u. authenticate env db h = Next u)
       \<or> (\<exists>x. authenticate env db h = Responded (internalServerError x))"
    by (rule authenticate_listed)
qed (auto simp: authenticate_no_token authenticate_no_secret authenticate_verify_throws
       authenticate_bad_id authenticate_lookup authenticateCatch_cases selectNoPassword_def)

theorem authenticate_outcomes_witness:
  "authenticate demoEnv demoStore None
     = Responded (send 401 (metaMsg ''Unauthorized - No token provided''))
   \<and> authenticate (demoEnv\<lparr>ACCESS_TOKEN_SECRET := Some []\<rparr>) demoStore (Some ''Bearer a.b.c'')
     = Responded (send 500 (metaMsg ''Server configuration error''))
   \<and> authenticate demoEnv demoStore (Some ''Bearer forged'')
     = Responded (send 401 (metaMsg ''Invalid token, not authorized''))
   \<and> authenticate demoEnv demoStore (Some ''Bearer old'')
     = Responded (send 401 (metaMsg ''Token expired, please log in again''))
   \<and> authenticate demoEnv demoStore (Some ''Bearer n.o.id'')
     = Responded (send 400 (metaMsg ''Invalid user ID in token''))
   \<and> authenticate demoEnv demoStore (Some ''Bearer g.o.n'')
     = Responded (send 404 (metaMsg ''User not found, authentication failed''))
   \<and> authenticate demoEnv demoStore (Some ''Bearer a.b.c'') = Next (jane\<lparr>password := None\<rparr>)
   \<and> authenticate demoEnv demoStore (Some ''Bearer early'')
     = Responded (internalServerError (Exn ''NotBeforeError'' ''jwt not active''))"
proof -
  have t: "bearerToken None = None" "bearerToken (Some ''Bearer a.b.c'') = Some ''a.b.c''"
    "bearerToken (Some ''Bearer forged'') = Some ''forged''"
    "bearerToken (Some ''Bearer old'') = Some ''old''"
    "bearerToken (Some ''Bearer n.o.id'') = Some ''n.o.id''"
    "bearerToken (Some ''Bearer g.o.n'') = Some ''g.o.n''"
    "bearerToken (Some ''Bearer early'') = Some ''early''"
    by (simp_all add: bearerToken_def startsWith_def at_def)
  have s: "ACCESS_TOKEN_SECRET demoEnv = Some ''access-secret''" by (simp add: demoEnv_def)
  have v: "jwt_verify demoEnv ''forged'' (Some ''access-secret'') = Inl (Exn ''JsonWebTokenError'' ''invalid signature'')"
    "jwt_verify demoEnv ''old'' (Some ''access-secret'') = Inl (Exn ''TokenExpiredError'' ''jwt expired'')"
    "jwt_verify demoEnv ''early'' (Some ''access-secret'') = Inl (Exn ''NotBeforeError'' ''jwt not active'')"
    "jwt_verify demoEnv ''n.o.id'' (Some ''access-secret'') = Inr [(''iat'', JNum 1), (''exp'', JNum 901)]"
    "jwt_verify demoEnv ''g.o.n'' (Some ''access-secret'')
       = Inr [(''id'', JStr ''64b7c86b5f1b2c3f4a1b2c40''), (''iat'', JNum 1), (''exp'', JNum 901)]"
    "jwt_verify demoEnv ''a.b.c'' (Some ''access-secret'')
       = Inr [(''id'', JStr ''64b7c86b5f1b2c3f4a1b2c4d''), (''iat'', JNum 1), (''exp'', JNum 901)]"
    by (simp_all add: demoEnv_def demoVerify_def)
  have f: "findById demoEnv demoStore (Some (JStr ''64b7c86b5f1b2c3f4a1b2c40'')) = Inr None"
    "findById demoEnv demoStore (Some (JStr ''64b7c86b5f1b2c3f4a1b2c4d'')) = Inr (Some jane)"
    by code_simp+
  have 1: "authenticate demoEnv demoStore None
     = Responded (send 401 (metaMsg ''Unauthorized - No token provided''))"
    using authenticate_outcomes [of None demoEnv demoStore] by (simp add: t)
  have 2: "authenticate (demoEnv\<lparr>ACCESS_TOKEN_SECRET := Some []\<rparr>) demoStore (Some ''Bearer a.b.c'')
     = Responded (send 500 (metaMsg ''Server configuration error''))"
    using authenticate_outcomes [of "Some ''Bearer a.b.c''" "demoEnv\<lparr>ACCESS_TOKEN_SECRET := Some []\<rparr>" demoStore]
    by (simp add: t)
  have 3: "authenticate demoEnv demoStore (Some ''Bearer forged'')
     = Responded (send 401 (metaMsg ''Invalid token, not authorized''))"
    using authenticate_outcomes [of "Some ''Bearer forged''" demoEnv demoStore "''forged''"
        "Exn ''JsonWebTokenError'' ''invalid signature''"]
    by (simp add: t s v)
  have 4: "authenticate demoEnv demoStore (Some ''Bearer old'')
     = Responded (send 401 (metaMsg ''Token expired, please log in again''))"
    using authenticate_outcomes [of "Some ''Bearer old''" demoEnv demoStore "''old''"
        "Exn ''TokenExpiredError'' ''jwt expired''"]
    by (simp add: t s v)
  have 5: "authenticate demoEnv demoStore (Some ''Bearer n.o.id'')
     = Responded (send 400 (metaMsg ''Invalid user ID in token''))"
    using authenticate_outcomes [of "Some ''Bearer n.o.id''" demoEnv demoStore "''n.o.id''" _
        "[(''iat'', JNum 1), (''exp'', JNum 901)]"]
    by (simp add: t s v)
  have 6: "authenticate demoEnv demoStore (Some ''Bearer g.o.n'')
     = Responded (send 404 (metaMsg ''User not found, authentication failed''))"
    using authenticate_outcomes [of "Some ''Bearer g.o.n''" demoEnv demoStore "''g.o.n''" _
        "[(''id'', JStr ''64b7c86b5f1b2c3f4a1b2c40''), (''iat'', JNum 1), (''exp'', JNum 901)]"
        "''64b7c86b5f1b2c3f4a1b2c40''"]
    by (simp add: t s v f)
  have 7: "authenticate demoEnv demoStore (Some ''Bearer a.b.c'') = Next (jane\<lparr>password := None\<rparr>)"
    using authenticate_outcomes [of "Some ''Bearer a.b.c''" demoEnv demoStore "''a.b.c''" _
        "[(''id'', JStr ''64b7c86b5f1b2c3f4a1b2c4d''), (''iat'', JNum 1), (''exp'', JNum 901)]"
        "''64b7c86b5f1b2c3f4a1b2c4d''" jane]
    by (simp add: t s v f)
  have 8: "authenticate demoEnv demoStore (Some ''Bearer early'')
     = Responded (internalServerError (Exn ''NotBeforeError'' ''jwt not active''))"
    using authenticate_outcomes [of "Some ''Bearer early''" demoEnv demoStore "''early''"
        "Exn ''NotBeforeError'' ''jwt not active''"]
    by (simp add: t s v)
  show ?thesis using 1 2 3 4 5 6 7 8 by blast
qed

subsection \<open>Who may update an account\<close>

text \<open>
  C4, as stated, fails: Jane, whose role is \<^verbatim>\<open>user\<close>, presents her own valid token and
  names the id of another account, the administrator's. \<^verbatim>\<open>PATCH /users/:id/status\<close>
  sets that account inactive and \<^verbatim>\<open>PUT /users/:id\<close> renames it; both answer 200.
\<close>

theorem update_self_gate_counterexample:
  "authenticate demoEnv demoStore (Some ''Bearer a.b.c'') = Next (jane\<lparr>password := None\<rparr>)
   \<and> role jane \<noteq> RoleAdmin \<and> user_id jane \<noteq> user_id root \<and> root \<in> set demoStore
   \<and> updateStatusRoute demoEnv demoStore (Some ''Bearer a.b.c'') (user_id root) (Some ''inactive'')
     = ([jane, root\<lparr>status := Inactive\<rparr>],
        send 200 (withData ''User status updated successfully''
                    [(''user'', toJSON (root\<lparr>status := Inactive, password := None\<rparr>))]))
   \<and> updateRoute demoEnv demoStore (Some ''Bearer a.b.c'') (user_id root)
        \<lparr>upd_fullName = Some ''Mallory'', upd_phone = None, upd_address = None, upd_avatar = None\<rparr>
     = ([jane, root\<lparr>fullName := Some ''Mallory''\<rparr>],
        send 200 (withData ''User profile updated successfully''
                    [(''user'', toJSON (root\<lparr>fullName := Some ''Mallory''\<rparr>))]))"
  by code_simp

lemma updateStatus_sets:
  assumes "castObjectId env (JStr i) = Inr oid" and "dbFault env = None"
    and "find (\<lambda>v. user_id v = oid) db = Some target"
  shows "updateStatus env db i (Some ''inactive'')
     = (map (\<lambda>v. if user_id v = oid then v\<lparr>status := Inactive\<rparr> else v) db,
        send 200 (withData ''User status updated successfully''
                    [(''user'', toJSON (target\<lparr>status := Inactive, password := None\<rparr>))]))"
  using assms
  by (simp add: updateStatus_def findByIdAndUpdate_def updateById_def applyUpdate_def noUpdate_def
        orElse_def validFullName_def validPhone_def selectNoPassword_def)

text \<open>
  C4, amended. \<^verbatim>\<open>PUT /users/:id\<close> and \<^verbatim>\<open>PATCH /users/:id/status\<close> are gated by the
  authentication middleware alone. When it rejects, its rejection is the response and
  the store is left as it was. When it lets the request through, the handler runs on
  the \<^verbatim>\<open>:id\<close> of the path and never looks at the calling account: two callers that
  both authenticate get the same response and leave the same store, whatever their
  roles and ids. So any caller that authenticates sets any stored account inactive.
\<close>

theorem update_gated_by_authentication_only:
  "(authenticate env db h = Responded r \<longrightarrow>
      updateRoute env db h i b = (db, r) \<and> updateStatusRoute env db h i st = (db, r))
   \<and> (authenticate env db h1 = Next caller1 \<and> authenticate env db h2 = Next caller2 \<longrightarrow>
      updateRoute env db h1 i b = updateRoute env db h2 i b
      \<and> updateRoute env db h1 i b = update env db i b
      \<and> updateStatusRoute env db h1 i st = updateStatusRoute env db h2 i st
      \<and> updateStatusRoute env db h1 i st = updateStatus env db i st)
   \<and> (authenticate env db h = Next caller \<and> castObjectId env (JStr i) = Inr oid
       \<and> dbFault env = None \<and> find (\<lambda>v. user_id v = oid) db = Some target \<longrightarrow>
      updateStatusRoute env db h i (Some ''inactive'')
        = (map (\<lambda>v. if user_id v = oid then v\<lparr>status := Inactive\<rparr> else v) db,
           send 200 (withData ''User status updated successfully''
                       [(''user'', toJSON (target\<lparr>status := Inactive, password := None\<rparr>))])))"
  by (simp add: updateRoute_def updateStatusRoute_def updateStatus_sets)

theorem update_gated_by_authentication_only_witness:
  "updateRoute demoEnv demoStore None (user_id root)
        \<lparr>upd_fullName = Some ''Mallory'', upd_phone = None, upd_address = None, upd_avatar = None\<rparr>
     = (demoStore, send 401 (metaMsg ''Unauthorized - No token provided''))
   \<and> updateStatusRoute demoEnv demoStore (Some ''Bearer a.b.c'') (user_id root) (Some ''inactive'')
     = updateStatusRoute demoEnv demoStore (Some ''Bearer r.o.t'') (user_id root) (Some ''inactive'')
   \<and> updateStatusRoute demoEnv demoStore (Some ''Bearer a.b.c'') (user_id root) (Some ''inactive'')
     = (map (\<lambda>v. if user_id v = user_id root then v\<lparr>status := Inactive\<rparr> else v) demoStore,
        send 200 (withData ''User status updated successfully''
                    [(''user'', toJSON (root\<lparr>status := Inactive, password := None\<rparr>))]))"
proof -
  let ?b = "\<lparr>upd_fullName = Some ''Mallory'', upd_phone = None, upd_address = None, upd_avatar = None\<rparr>"
  have 1: "authenticate demoEnv demoStore None = Responded (send 401 (metaMsg ''Unauthorized - No token provided''))"
    by code_simp
  have 2: "authenticate demoEnv demoStore (Some ''Bearer a.b.c'') = Next (jane\<lparr>password := None\<rparr>)"
    by code_simp
  have 3: "authenticate demoEnv demoStore (Some ''Bearer r.o.t'') = Next (root\<lparr>password := None\<rparr>)"
    by code_simp
  have 4: "castObjectId demoEnv (JStr (user_id root)) = Inr (user_id root)" by code_simp
  have 5: "dbFault demoEnv = None" by (simp add: demoEnv_def)
  have 6: "find (\<lambda>v. user_id v = user_id root) demoStore = Some root" by code_simp
  have a: "updateRoute demoEnv demoStore None (user_id root) ?b
     = (demoStore, send 401 (metaMsg ''Unauthorized - No token provided''))"
    using update_gated_by_authentication_only [where env = demoEnv and db = demoStore and h = None
        and i = "user_id root" and b = ?b
        and r = "send 401 (metaMsg ''Unauthorized - No token provided'')"] 1
    by blast
  have b: "updateStatusRoute demoEnv demoStore (Some ''Bearer a.b.c'') (user_id root) (Some ''inactive'')
     = updateStatusRoute demoEnv demoStore (Some ''Bearer r.o.t'') (user_id root) (Some ''inactive'')"
    using update_gated_by_authentication_only [where env = demoEnv and db = demoStore
        and i = "user_id root" and st = "Some ''inactive''"
        and ?h1.0 = "Some ''Bearer a.b.c''" and ?caller1.0 = "jane\<lparr>password := None\<rparr>"
        and ?h2.0 = "Some ''Bearer r.o.t''" and ?caller2.0 = "root\<lparr>password := None\<rparr>"] 2 3
    by blast
  have c: "updateStatusRoute demoEnv demoStore (Some ''Bearer a.b.c'') (user_id root) (Some ''inactive'')
     = (map (\<lambda>v. if user_id v = user_id root then v\<lparr>status := Inactive\<rparr> else v) demoStore,
        send 200 (withData ''User status updated successfully''
                    [(''user'', toJSON (root\<lparr>status := Inactive, password := None\<rparr>))]))"
    using update_gated_by_authentication_only [where env = demoEnv and db = demoStore
        and h = "Some ''Bearer a.b.c''" and caller = "jane\<lparr>password := None\<rparr>"
        and i = "user_id root" and oid = "user_id root" and target = root] 2 4 5 6
    by blast
  show ?thesis using a b c by blast
qed

subsection \<open>The reset mail is fire-and-forget\<close>

lemma sendEmail_never_throws:
  "sendEmail env to subject text html = Inr (transporter_sendMail env to subject text html = None)"
  by (simp add: sendEmail_def split: option.splits)

lemma forgotPassword_after_dispatch:
  "forgotPassword env db e =
     (case findOne env db e of
        Inl error \<Rightarrow> (db, send 500 (metaErr ''Error sending password reset email'' (JObj [])))
      | Inr None \<Rightarrow> (db, notFound)
      | Inr (Some u) \<Rightarrow>
          (case jwt_sign env [(''id'', JStr (user_id u))]
                  (RESET_TOKEN_SECRET env) (RESET_TOKEN_EXPIRE env) of
             Inl error \<Rightarrow> (db, send 500 (metaErr ''Error sending password reset email'' (JObj [])))
           | Inr token \<Rightarrow> (db, send 200 (metaMsg ''Password reset link sent successfully''))))"
  by (simp add: forgotPassword_def sendEmail_never_throws Let_def split: sum.splits option.splits)

text \<open>
  C8. \<open>forgotPassword\<close> answers the same, and leaves the same store, whatever the mail
  transport does: the helper catches the transport's error, and the handler drops the
  helper's answer. In particular, for an email that matches a stored account, once
  the reset token is signed the answer is 200 "Password reset link sent
  successfully" whether the dispatch succeeds or fails.
\<close>

theorem forgotPassword_ignores_dispatch:
  "forgotPassword (env\<lparr>transporter_sendMail := m1\<rparr>) db e
     = forgotPassword (env\<lparr>transporter_sendMail := m2\<rparr>) db e
   \<and> (dbFault env = None \<and> find (\<lambda>u. email u = castEmail e) db = Some u
      \<and> jwt_sign env [(''id'', JStr (user_id u))] (RESET_TOKEN_SECRET env) (RESET_TOKEN_EXPIRE env)
          = Inr token \<longrightarrow>
      forgotPassword (env\<lparr>transporter_sendMail := m1\<rparr>) db e
        = (db, send 200 (metaMsg ''Password reset link sent successfully'')))"
  by (simp add: forgotPassword_after_dispatch findOne_def split: option.splits sum.splits)

theorem forgotPassword_ignores_dispatch_witness:
  "forgotPassword (demoEnv\<lparr>transporter_sendMail :=
        (\<lambda>to subject text html. Some (Exn ''Error'' ''connect ECONNREFUSED''))\<rparr>) demoStore ''jane@x.com''
     = forgotPassword (demoEnv\<lparr>transporter_sendMail := (\<lambda>to subject text html. None)\<rparr>)
         demoStore ''jane@x.com''
   \<and> forgotPassword (demoEnv\<lparr>transporter_sendMail :=
        (\<lambda>to subject text html. Some (Exn ''Error'' ''connect ECONNREFUSED''))\<rparr>) demoStore ''jane@x.com''
     = (demoStore, send 200 (metaMsg ''Password reset link sent successfully''))"
proof -
  have 1: "dbFault demoEnv = None" by (simp add: demoEnv_def)
  have 2: "find (\<lambda>u. email u = castEmail ''jane@x.com'') demoStore = Some jane" by code_simp
  have 3: "jwt_sign demoEnv [(''id'', JStr (user_id jane))] (RESET_TOKEN_SECRET demoEnv)
             (RESET_TOKEN_EXPIRE demoEnv) = Inr ''jwt:id;''" by code_simp
  show ?thesis
    using forgotPassword_ignores_dispatch [where env = demoEnv
        and ?m1.0 = "\<lambda>to subject text html. Some (Exn ''Error'' ''connect ECONNREFUSED'')"
        and db = demoStore and e = "''jane@x.com''" and ?m2.0 = "\<lambda>to subject text html. None"
        and u = jane and token = "''jwt:id;''"] 1 2 3
    by blast
qed

subsection \<open>Refresh mints an access token and touches nothing else\<close>

lemma refreshToken_success:
  assumes "statusCode (snd (refreshToken env db cookie)) = 200"
  shows "\<exists>t decoded u tok. cookie = Some t \<and> t \<noteq> []
          \<and> jwt_verify env t (REFRESH_TOKEN_SECRET env) = Inr decoded
          \<and> findById env db (map_of decoded ''id'') = Inr (Some u)
          \<and> jwt_sign env [(''id'', JStr (user_id u))] (ACCESS_TOKEN_SECRET env) (ACCESS_TOKEN_EXPIRE env) = Inr tok"
  using assms
  by (auto simp: refreshToken_def send_def Let_def split: option.splits sum.splits if_splits)

lemma refreshToken_mints:
  assumes "t \<noteq> []" and "jwt_verify env t (REFRESH_TOKEN_SECRET env) = Inr decoded"
    and "findById env db (map_of decoded ''id'') = Inr (Some u)"
    and "jwt_sign env [(''id'', JStr (user_id u))] (ACCESS_TOKEN_SECRET env) (ACCESS_TOKEN_EXPIRE env) = Inr tok"
  shows "refreshToken env db (Some t)
           = (db, send 200 (withData ''Access token refreshed'' [(''accessToken'', JStr tok)]))"
  using assms by (simp add: refreshToken_def)

lemma findById_later:
  "findById env db x = Inr r \<Longrightarrow> castObjectId env' = castObjectId env \<Longrightarrow> dbFault env' = None \<Longrightarrow>
   findById env' db x = Inr r"
  by (auto simp: findById_def split: option.splits sum.splits)

text \<open>
  C5. A refresh request that succeeds (status 200) leaves the store as it was, sets
  and clears no cookie, and answers with the access token that \<^verbatim>\<open>jwt.sign\<close> made
  for the account's id. Presented again, at any later moment at which the same
  refresh token still verifies to the same claims (it has not expired), the store is
  reachable and signing works, the request succeeds again and answers with the access
  token signed at that moment.
\<close>

theorem refresh_mints_only:
  assumes "statusCode (snd (refreshToken env db cookie)) = 200"
  shows "fst (refreshToken env db cookie) = db
     \<and> cookieOps (snd (refreshToken env db cookie)) = []
     \<and> (\<exists>t decoded u tok.
           cookie = Some t
         \<and> jwt_verify env t (REFRESH_TOKEN_SECRET env) = Inr decoded
         \<and> findById env db (map_of decoded ''id'') = Inr (Some u)
         \<and> jwt_sign env [(''id'', JStr (user_id u))] (ACCESS_TOKEN_SECRET env) (ACCESS_TOKEN_EXPIRE env)
             = Inr tok
         \<and> snd (refreshToken env db cookie)
             = send 200 (withData ''Access token refreshed'' [(''accessToken'', JStr tok)])
         \<and> (\<forall>env' tok'.
               jwt_verify env' t (REFRESH_TOKEN_SECRET env') = Inr decoded
             \<and> castObjectId env' = castObjectId env \<and> dbFault env' = None
             \<and> jwt_sign env' [(''id'', JStr (user_id u))] (ACCESS_TOKEN_SECRET env') (ACCESS_TOKEN_EXPIRE env')
                 = Inr tok'
             \<longrightarrow> refreshToken env' (fst (refreshToken env db cookie)) cookie
                   = (db, send 200 (withData ''Access token refreshed'' [(''accessToken'', JStr tok')]))))"
proof -
  obtain t decoded u tok where c: "cookie = Some t" and t: "t \<noteq> []"
    and v: "jwt_verify env t (REFRESH_TOKEN_SECRET env) = Inr decoded"
    and f: "findById env db (map_of decoded ''id'') = Inr (Some u)"
    and s: "jwt_sign env [(''id'', JStr (user_id u))] (ACCESS_TOKEN_SECRET env) (ACCESS_TOKEN_EXPIRE env) = Inr tok"
    using refreshToken_success [OF assms] by blast
  have r: "refreshToken env db cookie
             = (db, send 200 (withData ''Access token refreshed'' [(''accessToken'', JStr tok)]))"
    unfolding c by (rule refreshToken_mints [OF t v f s])
  have again: "refreshToken env' db cookie
             = (db, send 200 (withData ''Access token refreshed'' [(''accessToken'', JStr tok')]))"
    if "jwt_verify env' t (REFRESH_TOKEN_SECRET env') = Inr decoded"
      and "castObjectId env' = castObjectId env" and "dbFault env' = None"
      and "jwt_sign env' [(''id'', JStr (user_id u))] (ACCESS_TOKEN_SECRET env') (ACCESS_TOKEN_EXPIRE env') = Inr tok'"
    for env' tok'
    unfolding c
    by (rule refreshToken_mints [OF t that(1) findById_later [OF f that(2,3)] that(4)])
  show ?thesis
    unfolding r fst_conv snd_conv
  proof (intro conjI)
    show "db = db" ..
    show "cookieOps (send 200 (withData ''Access token refreshed'' [(''accessToken'', JStr tok)])) = []"
      by (simp add: send_def)
    show "\<exists>t decoded u tok'.
           cookie = Some t
         \<and> jwt_verify env t (REFRESH_TOKEN_SECRET env) = Inr decoded
         \<and> findById env db (map_of decoded ''id'') = Inr (Some u)
         \<and> jwt_sign env [(''id'', JStr (user_id u))] (ACCESS_TOKEN_SECRET env) (ACCESS_TOKEN_EXPIRE env)
             = Inr tok'
         \<and> send 200 (withData ''Access token refreshed'' [(''accessToken'', JStr tok)])
             = send 200 (withData ''Access token refreshed'' [(''accessToken'', JStr tok')])
         \<and> (\<forall>env' tok'.
               jwt_verify env' t (REFRESH_TOKEN_SECRET env') = Inr decoded
             \<and> castObjectId env' = castObjectId env \<and> dbFault env' = None
             \<and> jwt_sign env' [(''id'', JStr (user_id u))] (ACCESS_TOKEN_SECRET env') (ACCESS_TOKEN_EXPIRE env')
                 = Inr tok'
             \<longrightarrow> refreshToken env' db cookie
                   = (db, send 200 (withData ''Access token refreshed'' [(''accessToken'', JStr tok')])))"
    proof (intro exI conjI allI impI)
      show "cookie = Some t" by (rule c)
      show "jwt_verify env t (REFRESH_TOKEN_SECRET env) = Inr decoded" by (rule v)
      show "findById env db (map_of decoded ''id'') = Inr (Some u)" by (rule f)
      show "jwt_sign env [(''id'', JStr (user_id u))] (ACCESS_TOKEN_SECRET env) (ACCESS_TOKEN_EXPIRE env)
             = Inr tok" by (rule s)
      show "send 200 (withData ''Access token refreshed'' [(''accessToken'', JStr tok)])
             = send 200 (withData ''Access token refreshed'' [(''accessToken'', JStr tok)])" ..
    next
      fix env' :: env and tok'
      assume "jwt_verify env' t (REFRESH_TOKEN_SECRET env') = Inr decoded
             \<and> castObjectId env' = castObjectId env \<and> dbFault env' = None
             \<and> jwt_sign env' [(''id'', JStr (user_id u))] (ACCESS_TOKEN_SECRET env') (ACCESS_TOKEN_EXPIRE env')
                 = Inr tok'"
      then show "refreshToken env' db cookie
                   = (db, send 200 (withData ''Access token refreshed'' [(''accessToken'', JStr tok')]))"
        using again [of env' tok'] by blast
    qed
  qed
qed

theorem refresh_mints_only_witness:
  "fst (refreshToken demoEnv demoStore (Some ''a.b.c'')) = demoStore
   \<and> cookieOps (snd (refreshToken demoEnv demoStore (Some ''a.b.c''))) = []
   \<and> refreshToken (demoEnv\<lparr>newObjectId := ''later''\<rparr>)
        (fst (refreshToken demoEnv demoStore (Some ''a.b.c''))) (Some ''a.b.c'')
      = (demoStore, send 200 (withData ''Access token refreshed'' [(''accessToken'', JStr ''jwt:id;'')]))"
proof -
  have ok: "statusCode (snd (refreshToken demoEnv demoStore (Some ''a.b.c''))) = 200" by code_simp
  have v: "jwt_verify demoEnv ''a.b.c'' (REFRESH_TOKEN_SECRET demoEnv)
      = Inr [(''id'', JStr ''64b7c86b5f1b2c3f4a1b2c4d''), (''iat'', JNum 1), (''exp'', JNum 901)]"
    by code_simp
  have f: "findById demoEnv demoStore
             (map_of [(''id'', JStr ''64b7c86b5f1b2c3f4a1b2c4d''), (''iat'', JNum 1), (''exp'', JNum 901)] ''id'')
           = Inr (Some jane)" by code_simp
  let ?env' = "demoEnv\<lparr>newObjectId := ''later''\<rparr>"
  have v': "jwt_verify ?env' ''a.b.c'' (REFRESH_TOKEN_SECRET ?env')
      = Inr [(''id'', JStr ''64b7c86b5f1b2c3f4a1b2c4d''), (''iat'', JNum 1), (''exp'', JNum 901)]"
    by code_simp
  have c': "castObjectId ?env' = castObjectId demoEnv" "dbFault ?env' = None"
    by (simp_all add: demoEnv_def)
  have s': "jwt_sign ?env' [(''id'', JStr (user_id jane))] (ACCESS_TOKEN_SECRET ?env') (ACCESS_TOKEN_EXPIRE ?env')
      = Inr ''jwt:id;''" by code_simp
  from refresh_mints_only [OF ok] obtain t decoded u tok where
    "Some ''a.b.c'' = Some t"
    "jwt_verify demoEnv t (REFRESH_TOKEN_SECRET demoEnv) = Inr decoded"
    "findById demoEnv demoStore (map_of decoded ''id'') = Inr (Some u)"
    and again: "\<And>env' tok'. jwt_verify env' t (REFRESH_TOKEN_SECRET env') = Inr decoded \<Longrightarrow>
       castObjectId env' = castObjectId demoEnv \<Longrightarrow> dbFault env' = None \<Longrightarrow>
       jwt_sign env' [(''id'', JStr (user_id u))] (ACCESS_TOKEN_SECRET env') (ACCESS_TOKEN_EXPIRE env') = Inr tok'
       \<Longrightarrow> refreshToken env' (fst (refreshToken demoEnv demoStore (Some ''a.b.c''))) (Some ''a.b.c'')
            = (demoStore, send 200 (withData ''Access token refreshed'' [(''accessToken'', JStr tok')]))"
    by blast
  then have "t = ''a.b.c''" "decoded = [(''id'', JStr ''64b7c86b5f1b2c3f4a1b2c4d''), (''iat'', JNum 1), (''exp'', JNum 901)]"
    using v by simp_all
  moreover from this have "u = jane"
    using f \<open>findById demoEnv demoStore (map_of decoded ''id'') = Inr (Some u)\<close> by simp
  ultimately have "refreshToken ?env' (fst (refreshToken demoEnv demoStore (Some ''a.b.c''))) (Some ''a.b.c'')
      = (demoStore, send 200 (withData ''Access token refreshed'' [(''accessToken'', JStr ''jwt:id;'')]))"
    using again [of ?env' "''jwt:id;''"] v' c' s' by simp
  then show ?thesis using refresh_mints_only [OF ok] by simp
qed

subsection \<open>Registration normalises the email and refuses a duplicate\<close>

lemma lowerChar_idem: "lowerChar (lowerChar c) = lowerChar c"
  by (simp add: lowerChar_def Let_def)

lemma toLowerCase_idem: "toLowerCase (toLowerCase s) = toLowerCase s"
  by (simp add: toLowerCase_def lowerChar_idem)

lemma castEmail_lowercased: "toLowerCase (castEmail e) = castEmail e"
  by (simp add: castEmail_def toLowerCase_idem)

lemma register_validated:
  "registerValidationSchema env b = [] \<Longrightarrow> \<exists>e p. reg_email b = Some e \<and> reg_password b = Some p"
  by (auto simp: registerValidationSchema_def split: option.splits if_splits)

lemma create_appends:
  "create env db fn e pw = Inr (db', u) \<Longrightarrow> db' = db @ [u] \<and> email u = castEmail e"
  by (auto simp: create_def Let_def split: if_splits option.splits)

lemma register_created:
  assumes "statusCode (snd (register env db b)) = 201"
  shows "\<exists>e pw h u. reg_email b = Some e \<and> reg_password b = Some pw
           \<and> create env db (reg_fullName b) e h = Inr (fst (register env db b), u)"
  using assms
  by (auto simp: register_def Let_def send_def validationErrors_def
           split: list.splits option.splits sum.splits if_splits prod.splits)

text \<open>
  C9. A registration that succeeds (status 201) appends one account whose stored email
  is the submitted one trimmed and lowercased, so lowercasing it again changes
  nothing. And a registration request that passes validation, against a reachable
  store that already holds an account whose email is the normal form of the submitted
  one, is answered 400 "Email is already in use" and leaves the store as it was:
  the lookup that precedes the insert goes through the same setters as the stored
  value did.
\<close>

theorem register_normalises_email:
  "(statusCode (snd (register env db b)) = 201 \<longrightarrow>
      (\<exists>e u. reg_email b = Some e \<and> fst (register env db b) = db @ [u]
             \<and> email u = castEmail e \<and> toLowerCase (email u) = email u))
   \<and> (registerValidationSchema env b = [] \<and> dbFault env = None \<and> reg_email b = Some e
       \<and> u \<in> set db \<and> email u = castEmail e \<longrightarrow>
      register env db b = (db, send 400 (metaErr ''Email is already in use'' (JBool True))))"
proof (intro conjI impI)
  assume "statusCode (snd (register env db b)) = 201"
  from register_created [OF this] obtain e pw h u where
    e: "reg_email b = Some e"
    and c: "create env db (reg_fullName b) e h = Inr (fst (register env db b), u)"
    by blast
  from create_appends [OF c] have "fst (register env db b) = db @ [u]" "email u = castEmail e"
    by simp_all
  with e show "\<exists>e u. reg_email b = Some e \<and> fst (register env db b) = db @ [u]
             \<and> email u = castEmail e \<and> toLowerCase (email u) = email u"
    by (auto simp: castEmail_lowercased)
next
  assume a: "registerValidationSchema env b = [] \<and> dbFault env = None \<and> reg_email b = Some e
       \<and> u \<in> set db \<and> email u = castEmail e"
  then obtain pw where pw: "reg_password b = Some pw"
    using register_validated [of env b] by auto
  from a have "find (\<lambda>u. email u = castEmail e) db \<noteq> None"
    by (auto simp: find_None_iff)
  then obtain x where "find (\<lambda>u. email u = castEmail e) db = Some x" by auto
  with a pw show "register env db b = (db, send 400 (metaErr ''Email is already in use'' (JBool True)))"
    by (simp add: register_def findOne_def)
qed

text \<open>
  The spec's example: "JANE@x.com" registers and is stored as "jane@x.com"; a second
  request with another casing of the address is refused.
\<close>

theorem register_normalises_email_witness:
  "fst (register demoEnv []
          \<lparr>reg_fullName = Some ''Jane Doe'', reg_email = Some ''JANE@x.com'', reg_password = Some ''secret1''\<rparr>)
     = [jane\<lparr>user_id := newObjectId demoEnv\<rparr>]
   \<and> register (demoEnv\<lparr>newObjectId := ''64b7c86b5f1b2c3f4a1b2c50''\<rparr>)
        (fst (register demoEnv []
          \<lparr>reg_fullName = Some ''Jane Doe'', reg_email = Some ''JANE@x.com'', reg_password = Some ''secret1''\<rparr>))
        \<lparr>reg_fullName = Some ''Jane Doe'', reg_email = Some ''Jane@X.com'', reg_password = Some ''secret1''\<rparr>
     = ([jane\<lparr>user_id := newObjectId demoEnv\<rparr>],
        send 400 (metaErr ''Email is already in use'' (JBool True)))"
proof -
  let ?b1 = "\<lparr>reg_fullName = Some ''Jane Doe'', reg_email = Some ''JANE@x.com'', reg_password = Some ''secret1''\<rparr>"
  let ?b2 = "\<lparr>reg_fullName = Some ''Jane Doe'', reg_email = Some ''Jane@X.com'', reg_password = Some ''secret1''\<rparr>"
  let ?env2 = "demoEnv\<lparr>newObjectId := ''64b7c86b5f1b2c3f4a1b2c50''\<rparr>"
  let ?u = "jane\<lparr>user_id := newObjectId demoEnv\<rparr>"
  have ok: "statusCode (snd (register demoEnv [] ?b1)) = 201" by code_simp
  have db1: "fst (register demoEnv [] ?b1) = [?u]" by code_simp
  have "\<exists>e u. reg_email ?b1 = Some e \<and> fst (register demoEnv [] ?b1) = [] @ [u]
             \<and> email u = castEmail e \<and> toLowerCase (email u) = email u"
    using register_normalises_email [where env = demoEnv and db = "[]" and b = ?b1] ok by blast
  then have stored: "email ?u = castEmail ''JANE@x.com''" unfolding db1 by simp
  have v: "registerValidationSchema ?env2 ?b2 = []" by code_simp
  have f: "dbFault ?env2 = None" by (simp add: demoEnv_def)
  have same: "castEmail ''Jane@X.com'' = castEmail ''JANE@x.com''" by code_simp
  have "register ?env2 [?u] ?b2 = ([?u], send 400 (metaErr ''Email is already in use'' (JBool True)))"
    using register_normalises_email [where env = ?env2 and db = "[?u]" and b = ?b2
        and e = "''Jane@X.com''" and u = ?u] v f stored same
    by simp
  then show ?thesis by (simp add: db1)
qed

subsection \<open>The password hash never leaves the server\<close>

lemma toJSON_no_password: "\<not> hasKey ''password'' (toJSON u)"
  by (simp add: toJSON_def transform_def toObject_def optField_def deleteKey_def setKey_def
        split: option.splits)

lemma hasKeyList_map: "hasKeyList k (map f xs) = list_ex (\<lambda>x. hasKey k (f x)) xs"
  by (induction xs) simp_all

lemma publicUser_no_password: "\<not> hasKeyFields ''password'' (publicUser u)"
  by (simp add: publicUser_def optField_def split: option.splits)

lemma messageOrError_no_key: "\<not> hasKey k (messageOrError e)"
  by (simp add: messageOrError_def)

lemma validationErrors_no_key: "\<not> hasKey ''password'' (jsonBody (validationErrors msgs))"
  by (simp add: validationErrors_def send_def metaErr_def hasKeyList_map list_ex_iff)

lemma register_no_password: "\<not> hasKey ''password'' (jsonBody (snd (register env db b)))"
  by (simp add: register_def Let_def send_def metaErr_def withData_def messageOrError_no_key
        publicUser_no_password validationErrors_no_key
        split: list.splits option.splits sum.splits prod.splits)

lemma login_no_password: "\<not> hasKey ''password'' (jsonBody (snd (login env db b)))"
  by (simp add: login_def Let_def send_def metaErr_def withData_def messageOrError_no_key
        publicUser_no_password validationErrors_no_key optField_def publicUser_def
        split: list.splits option.splits sum.splits prod.splits)

lemma getProfile_no_password: "\<not> hasKey ''password'' (jsonBody (snd (getProfile env db h)))"
  by (simp add: getProfile_def Let_def send_def metaErr_def metaMsg_def withData_def
        messageOrError_no_key toJSON_no_password notFound_def
        split: list.splits option.splits sum.splits prod.splits)

lemma list_no_password: "\<not> hasKey ''password'' (jsonBody (snd (list env db)))"
  by (simp add: list_def Let_def send_def metaErr_def metaMsg_def withData_def
        messageOrError_no_key toJSON_no_password hasKeyList_map list_ex_iff
        split: list.splits option.splits sum.splits prod.splits)

lemma updateStatus_no_password: "\<not> hasKey ''password'' (jsonBody (snd (updateStatus env db i st)))"
  by (simp add: updateStatus_def Let_def send_def metaErr_def metaMsg_def withData_def
        messageOrError_no_key toJSON_no_password notFound_def
        split: list.splits option.splits sum.splits prod.splits)

lemma update_no_password: "\<not> hasKey ''password'' (jsonBody (snd (update env db i b)))"
  by (simp add: update_def Let_def send_def metaErr_def metaMsg_def withData_def
        messageOrError_no_key toJSON_no_password notFound_def
        split: list.splits option.splits sum.splits prod.splits)

lemma authenticate_Next:
  "authenticate env db h = Next u \<Longrightarrow> \<exists>v. u = selectNoPassword v"
  by (auto simp: authenticate_def split: option.splits sum.splits if_splits json.splits)

text \<open>
  C3. No response body of \<open>register\<close>, \<open>login\<close>, \<open>getProfile\<close>, \<open>list\<close>,
  \<open>updateStatus\<close> or \<open>update\<close> contains the key \<^verbatim>\<open>password\<close>, at any depth and on
  any path through the handler: \<open>register\<close> and \<open>login\<close> build the user object field
  by field, the others serialise a document through the schema's transform, which
  deletes the key (and three of them read the document with \<^verbatim>\<open>select("-password")\<close>
  already). The document that the middleware attaches to the request has no password
  path either.
\<close>

theorem password_never_projected:
  "\<not> hasKey ''password'' (jsonBody (snd (register env db rb)))
   \<and> \<not> hasKey ''password'' (jsonBody (snd (login env db lb)))
   \<and> \<not> hasKey ''password'' (jsonBody (snd (getProfile env db h)))
   \<and> \<not> hasKey ''password'' (jsonBody (snd (list env db)))
   \<and> \<not> hasKey ''password'' (jsonBody (snd (updateStatus env db i st)))
   \<and> \<not> hasKey ''password'' (jsonBody (snd (update env db i ub)))
   \<and> (authenticate env db h = Next u \<longrightarrow> password u = None \<and> \<not> hasKey ''password'' (JObj (toObject u)))"
proof -
  have "password u = None \<and> \<not> hasKey ''password'' (JObj (toObject u))"
    if "authenticate env db h = Next u"
    using authenticate_Next [OF that]
    by (auto simp: selectNoPassword_def toObject_def optField_def split: option.splits)
  then show ?thesis
    by (simp add: register_no_password login_no_password getProfile_no_password list_no_password
          updateStatus_no_password update_no_password)
qed

theorem password_never_projected_witness:
  "hasKey ''password'' (JObj (toObject root))
   \<and> snd (update demoEnv demoStore (user_id root)
             \<lparr>upd_fullName = None, upd_phone = Some ''+84123456789'', upd_address = None, upd_avatar = None\<rparr>)
      = send 200 (withData ''User profile updated successfully''
                    [(''user'', toJSON (root\<lparr>phone := Some ''+84123456789''\<rparr>))])
   \<and> \<not> hasKey ''password'' (jsonBody (snd (update demoEnv demoStore (user_id root)
             \<lparr>upd_fullName = None, upd_phone = Some ''+84123456789'', upd_address = None, upd_avatar = None\<rparr>)))
   \<and> authenticate demoEnv demoStore (Some ''Bearer r.o.t'') = Next (root\<lparr>password := None\<rparr>)
   \<and> \<not> hasKey ''password'' (JObj (toObject (root\<lparr>password := None\<rparr>)))"
proof -
  have 1: "hasKey ''password'' (JObj (toObject root))" by code_simp
  have 2: "snd (update demoEnv demoStore (user_id root)
             \<lparr>upd_fullName = None, upd_phone = Some ''+84123456789'', upd_address = None, upd_avatar = None\<rparr>)
      = send 200 (withData ''User profile updated successfully''
                    [(''user'', toJSON (root\<lparr>phone := Some ''+84123456789''\<rparr>))])" by code_simp
  have 3: "authenticate demoEnv demoStore (Some ''Bearer r.o.t'') = Next (root\<lparr>password := None\<rparr>)"
    by code_simp
  show ?thesis
    using 1 2 3 password_never_projected [where env = demoEnv and db = demoStore and i = "user_id root"
        and ub = "\<lparr>upd_fullName = None, upd_phone = Some ''+84123456789'', upd_address = None, upd_avatar = None\<rparr>"
        and h = "Some ''Bearer r.o.t''" and u = "root\<lparr>password := None\<rparr>"]
    by blast
qed


subsection \<open>Faults during a password reset\<close>

text \<open>
  The three outcomes that the handler separates: a token that does not verify, a
  subject without an account, and the overwrite of the stored hash.
\<close>

lemma resetPassword_bad_token:
  "jwt_verify env t (RESET_TOKEN_SECRET env) = Inl e \<Longrightarrow>
   resetPassword env db (Some t) newPassword
     = (db, send 400 (metaErr ''Invalid or expired token'' (JBool True)))"
  by (simp add: resetPassword_def)

lemma resetPassword_no_account:
  "jwt_verify env t (RESET_TOKEN_SECRET env) = Inr decoded \<Longrightarrow>
   findById env db (map_of decoded ''id'') = Inr None \<Longrightarrow>
   resetPassword env db (Some t) newPassword = (db, notFound)"
  by (simp add: resetPassword_def)

lemma findById_found:
  "findById env db x = Inr (Some u) \<Longrightarrow>
   dbFault env = None \<and> find (\<lambda>v. user_id v = user_id u) db = Some u"
  by (auto simp: findById_def find_Some_iff split: option.splits sum.splits)

lemma resetPassword_overwrites:
  assumes "jwt_verify env t (RESET_TOKEN_SECRET env) = Inr decoded"
    and "findById env db (map_of decoded ''id'') = Inr (Some u)"
    and "bcrypt_hash env newPassword = Inr hashedPassword"
  shows "resetPassword env db (Some t) newPassword
     = (map (\<lambda>v. if user_id v = user_id u then v\<lparr>password := Some hashedPassword\<rparr> else v) db,
        send 200 (metaMsg ''Password reset successfully''))"
  using assms findById_found [OF assms(2)]
  by (simp add: resetPassword_def updateById_def applyUpdate_def noUpdate_def orElse_def)

lemma resetPassword_never_500: "statusCode (snd (resetPassword env db token newPassword)) \<noteq> 500"
  by (simp add: resetPassword_def Let_def send_def notFound_def
        split: option.splits sum.splits prod.splits)

text \<open>
  C6 does not hold of the code where it speaks of unexpected faults. A request with a
  valid reset token of a stored account and no \<^verbatim>\<open>newPassword\<close> makes
  \<^verbatim>\<open>bcrypt.hash\<close> throw; a request that arrives while the store is unreachable makes
  the lookup throw. The single catch block of \<open>resetPassword\<close> answers both with 400
  "Invalid or expired token", where every other handler of the controller answers
  500 from its catch block.
\<close>

theorem resetPassword_fault_answered_400:
  "resetPassword demoEnv demoStore (Some ''a.b.c'') None
     = (demoStore, send 400 (metaErr ''Invalid or expired token'' (JBool True)))
   \<and> resetPassword (demoEnv\<lparr>dbFault := Some (Exn ''MongooseServerSelectionError'' ''connect ECONNREFUSED'')\<rparr>)
        demoStore (Some ''a.b.c'') (Some ''newsecret'')
     = (demoStore, send 400 (metaErr ''Invalid or expired token'' (JBool True)))"
  by code_simp

subsection \<open>The claims of an access token\<close>

text \<open>
  C7 does not hold of the code. The demonstration signer prints the keys of the
  payload it is given: the access token of a login is signed over \<^verbatim>\<open>id\<close> and
  \<^verbatim>\<open>email\<close> (by \<open>generateAccessToken\<close>), the access token of a refresh over \<^verbatim>\<open>id\<close>
  alone (by the \<^verbatim>\<open>jwt.sign\<close> call written out in \<open>refreshToken\<close>).
\<close>

theorem refresh_access_token_lacks_email:
  "jsonBody (snd (login demoEnv demoStore
       \<lparr>login_email = Some ''jane@x.com'', login_password = Some ''secret1'', body_other = []\<rparr>))
     = withData ''Login successful''
         [(''accessToken'', JStr ''jwt:id;email;''),
          (''user'', JObj [(''id'', JStr (user_id jane)), (''fullName'', JStr ''Jane Doe''),
                           (''email'', JStr ''jane@x.com''), (''role'', JStr ''user'')])]
   \<and> jsonBody (snd (refreshToken demoEnv demoStore (Some ''a.b.c'')))
     = withData ''Access token refreshed'' [(''accessToken'', JStr ''jwt:id;'')]"
  by code_simp

end
